theory Spec2Isabelle
  imports Main "HOL-Library.AList" "HOL-Library.Monad_Syntax"
begin

section \<open>Python values: decimal text of integers\<close>

text \<open>
  Paths are strings relative to the project root (\<open>Path(__file__).parent.parent\<close> of the
  modules under \<open>src/\<close>), joined with \<open>/\<close>. File names and contents are byte strings.
  Day and year numbers are Python's unbounded integers.
\<close>

type_synonym path = string

definition digit_char :: "nat \<Rightarrow> char" where
  "digit_char d = ''0123456789'' ! d"

fun str_nat :: "nat \<Rightarrow> string" where
  "str_nat n = (if n < 10 then [digit_char n] else str_nat (n div 10) @ [digit_char (n mod 10)])"

declare str_nat.simps [simp del]

definition str_int :: "int \<Rightarrow> string" where
  \<comment> \<open>\<open>str(n)\<close>\<close>
  "str_int n = (if n < 0 then CHR ''-'' # str_nat (nat (- n)) else str_nat (nat n))"

definition pad2 :: "int \<Rightarrow> string" where
  \<comment> \<open>\<open>f"{day:02d}"\<close>: zero fill to width two, the sign counted in the width\<close>
  "pad2 n = (if n < 0 then CHR ''-'' # str_nat (nat (- n))
             else (let s = str_nat (nat n) in replicate (2 - length s) CHR ''0'' @ s))"

subsection \<open>\<open>int(text)\<close>\<close>

definition is_space :: "char \<Rightarrow> bool" where
  "is_space c = (c \<in> set [CHR 0x09, CHR 0x0A, CHR 0x0B, CHR 0x0C, CHR 0x0D,
                           CHR 0x1C, CHR 0x1D, CHR 0x1E, CHR 0x1F, CHR 0x20])"

definition strip :: "string \<Rightarrow> string" where
  "strip s = rev (dropWhile is_space (rev (dropWhile is_space s)))"

definition digit_val :: "char \<Rightarrow> nat option" where
  "digit_val c = (let n = (of_char c :: nat) in if 48 \<le> n \<and> n \<le> 57 then Some (n - 48) else None)"

fun py_digits :: "nat \<Rightarrow> string \<Rightarrow> nat option" where
  "py_digits acc [] = Some acc"
| "py_digits acc (c # cs) =
     (if c = CHR ''_'' then
        (case cs of
           [] \<Rightarrow> None
         | d # ds \<Rightarrow> (case digit_val d of None \<Rightarrow> None | Some v \<Rightarrow> py_digits (10 * acc + v) ds))
      else (case digit_val c of None \<Rightarrow> None | Some v \<Rightarrow> py_digits (10 * acc + v) cs))"

definition py_nat :: "string \<Rightarrow> nat option" where
  "py_nat s = (case s of [] \<Rightarrow> None
               | c # cs \<Rightarrow> (case digit_val c of None \<Rightarrow> None | Some v \<Rightarrow> py_digits v cs))"

definition py_int :: "string \<Rightarrow> int option" where
  \<comment> \<open>\<open>int(s)\<close> in base ten on ASCII text: surrounding whitespace, a sign, digits with
      single underscores between them; \<open>None\<close> is \<open>ValueError\<close>\<close>
  "py_int s = (case strip s of
                 [] \<Rightarrow> None
               | c # cs \<Rightarrow>
                   if c = CHR ''-'' then map_option (\<lambda>n. - int n) (py_nat cs)
                   else if c = CHR ''+'' then map_option int (py_nat cs)
                   else map_option int (py_nat (c # cs)))"

subsection \<open>String operations of the standard library\<close>

definition startswith :: "string \<Rightarrow> string \<Rightarrow> bool" where
  "startswith p s = (take (length p) s = p)"

definition endswith :: "string \<Rightarrow> string \<Rightarrow> bool" where
  "endswith p s = (length p \<le> length s \<and> drop (length s - length p) s = p)"

function str_remove :: "string \<Rightarrow> string \<Rightarrow> string" where
  \<comment> \<open>\<open>s.replace(old, "")\<close>: every occurrence of \<open>old\<close>, left to right, not overlapping\<close>
  "str_remove old s =
     (if old = [] \<or> s = [] then s
      else if startswith old s then str_remove old (drop (length old) s)
      else hd s # str_remove old (tl s))"
  by pat_completeness auto
termination
  by (relation "measure (\<lambda>(old, s). length s)") auto

declare str_remove.simps [simp del]

definition stem :: "string \<Rightarrow> string" where
  \<comment> \<open>\<open>Path.stem\<close> of a file name: the name without its last suffix\<close>
  "stem name =
     (let after = takeWhile (\<lambda>c. c \<noteq> CHR ''.'') (rev name) in
      if length after = length name then name
      else (let i = length name - length after - 1 in
            if 0 < i \<and> i < length name - 1 then take i name else name))"

definition unlines :: "string list \<Rightarrow> string" where
  "unlines ls = concat (map (\<lambda>l. l @ [CHR 0x0A]) ls)"

section \<open>Exceptions and the file system\<close>

datatype pyexc =
    FileExistsError string
  | FileNotFoundError string
  | RuntimeError string
  | AttributeError string
  | ImportError string
  | ValueError string
  | KeyError string
  | OtherError string

fun exc_str :: "pyexc \<Rightarrow> string" where
  "exc_str (FileExistsError m) = m"
| "exc_str (FileNotFoundError m) = m"
| "exc_str (RuntimeError m) = m"
| "exc_str (AttributeError m) = m"
| "exc_str (ImportError m) = m"
| "exc_str (ValueError m) = m"
| "exc_str (KeyError m) = m"
| "exc_str (OtherError m) = m"

text \<open>
  The file system holds the regular files below the project root, each path once, in
  the order a directory scan yields them. Directories are implicit: \<open>mkdir(parents=True,
  exist_ok=True)\<close> changes nothing that the model records.
\<close>

type_synonym fs = "(path \<times> string) list"

definition path_exists :: "fs \<Rightarrow> path \<Rightarrow> bool" where
  "path_exists fs p = (map_of fs p \<noteq> None)"

definition read_text :: "fs \<Rightarrow> path \<Rightarrow> string option" where
  "read_text fs p = map_of fs p"

definition write_text :: "fs \<Rightarrow> path \<Rightarrow> string \<Rightarrow> fs" where
  "write_text fs p text = AList.update p text fs"

definition touch :: "fs \<Rightarrow> path \<Rightarrow> fs" where
  "touch fs p = (if path_exists fs p then fs else AList.update p [] fs)"

definition listdir :: "fs \<Rightarrow> path \<Rightarrow> string list" where
  \<comment> \<open>the names of the files directly inside directory \<open>d\<close>\<close>
  "listdir fs d =
     [drop (length d + 1) p. p \<leftarrow> map fst fs, startswith (d @ ''/'') p,
        drop (length d + 1) p \<noteq> [], CHR ''/'' \<notin> set (drop (length d + 1) p)]"

definition glob_day_py :: "fs \<Rightarrow> path \<Rightarrow> string list" where
  \<comment> \<open>\<open>d.glob("day*.py")\<close>\<close>
  "glob_day_py fs d =
     filter (\<lambda>name. 6 \<le> length name \<and> startswith ''day'' name \<and> endswith ''.py'' name)
       (listdir fs d)"

section \<open>The environment outside the repository\<close>

datatype download_kind = Input_only | Puzzle_only

record aoc_result =
  returncode :: int
  written :: "string option"
  out_text :: string
  err_text :: string

text \<open>
  \<open>config_file\<close> and \<open>template_file\<close> are the contents of \<open>.aoc-cli.json\<close> and of
  \<open>src/solutions/template.txt\<close> (\<open>None\<close> when the file is absent); no operation of
  the program writes them. \<open>json_load\<close> is \<open>json.load\<close>, giving the object as its
  key-value pairs with the integer values the code expects; \<open>str_format\<close> is
  \<open>template.format(year=..., day=..., day_padded=...)\<close>. \<open>aoc_download\<close> is one run of the
  external \<open>aoc download\<close> for a year and a day: its exit status, the text it wrote to
  the target file (if it wrote), and its output streams. \<open>run_pytest\<close> is the exit
  status of the benchmark subprocess for a test path.
\<close>

record env =
  config_file :: "string option"
  json_load :: "string \<Rightarrow> pyexc + (string \<times> int) list"
  template_file :: "string option"
  str_format :: "string \<Rightarrow> int \<Rightarrow> int \<Rightarrow> string \<Rightarrow> pyexc + string"
  aoc_installed :: bool
  aoc_download :: "download_kind \<Rightarrow> int \<Rightarrow> int \<Rightarrow> aoc_result"
  run_pytest :: "string \<Rightarrow> int"

section \<open>\<open>src/aoc_cli.py\<close>\<close>

definition get_aoc_data_dir :: "int option \<Rightarrow> path" where
  "get_aoc_data_dir year = (case year of None \<Rightarrow> ''data'' | Some y \<Rightarrow> str_int y @ ''/data'')"

definition check_aoc_cli :: "env \<Rightarrow> bool" where
  "check_aoc_cli e = aoc_installed e"

definition aoc_missing :: pyexc where
  "aoc_missing = RuntimeError
     (''aoc-cli not found. Install it with: cargo install aoc-cli'' @ [CHR 0x0A] @
      ''Then configure with: aoc credentials -s <session_cookie>'')"

definition download_input :: "env \<Rightarrow> fs \<Rightarrow> int \<Rightarrow> int \<Rightarrow> fs \<times> (pyexc + path)" where
  "download_input e fs day year =
     (if \<not> check_aoc_cli e then (fs, Inl aoc_missing)
      else
        (let data_dir = get_aoc_data_dir (Some year);
             input_file = data_dir @ ''/inputs/'' @ pad2 day @ ''.txt'';
             result = aoc_download e Input_only year day;
             fs' = (case written result of None \<Rightarrow> fs | Some text \<Rightarrow> write_text fs input_file text)
         in if returncode result \<noteq> 0 then
              (fs', Inl (RuntimeError (''Failed to download input: '' @ err_text result)))
            else if \<not> path_exists fs' input_file then
              (fs', Inl (RuntimeError
                 (''Download succeeded but file not found at '' @ input_file @ [CHR 0x0A] @
                  ''stdout: '' @ out_text result @ [CHR 0x0A] @ ''stderr: '' @ err_text result)))
            else (fs', Inr input_file)))"

definition download_puzzle :: "env \<Rightarrow> fs \<Rightarrow> int \<Rightarrow> int \<Rightarrow> fs \<times> (pyexc + path)" where
  "download_puzzle e fs day year =
     (if \<not> check_aoc_cli e then (fs, Inl aoc_missing)
      else
        (let data_dir = get_aoc_data_dir (Some year);
             puzzle_file = data_dir @ ''/puzzles/'' @ pad2 day @ ''.md'';
             result = aoc_download e Puzzle_only year day;
             fs' = (case written result of None \<Rightarrow> fs | Some text \<Rightarrow> write_text fs puzzle_file text)
         in if returncode result \<noteq> 0 then
              (fs', Inl (RuntimeError (''Failed to download puzzle: '' @ err_text result)))
            else if \<not> path_exists fs' puzzle_file then
              (fs', Inl (RuntimeError
                 (''Download succeeded but file not found at '' @ puzzle_file @ [CHR 0x0A] @
                  ''stdout: '' @ out_text result @ [CHR 0x0A] @ ''stderr: '' @ err_text result)))
            else (fs', Inr puzzle_file)))"

definition read_input :: "fs \<Rightarrow> int \<Rightarrow> int option \<Rightarrow> pyexc + string" where
  "read_input fs day year =
     (let data_dir = get_aoc_data_dir year;
          input_file = data_dir @ ''/inputs/'' @ pad2 day @ ''.txt''
      in case read_text fs input_file of
           None \<Rightarrow> Inl (FileNotFoundError
             (''Input file not found: '' @ input_file @ [CHR 0x0A] @
              ''Download it with: python main.py download '' @ str_int day))
         | Some text \<Rightarrow> Inr text)"

definition read_example :: "fs \<Rightarrow> int \<Rightarrow> int option \<Rightarrow> pyexc + string" where
  "read_example fs day year =
     (let data_dir = get_aoc_data_dir year;
          example_file = data_dir @ ''/examples/'' @ pad2 day @ ''.txt''
      in case read_text fs example_file of
           None \<Rightarrow> Inl (FileNotFoundError (''Example file not found: '' @ example_file))
         | Some text \<Rightarrow> Inr text)"

definition read_puzzle :: "fs \<Rightarrow> int \<Rightarrow> int option \<Rightarrow> pyexc + string" where
  "read_puzzle fs day year =
     (let data_dir = get_aoc_data_dir year;
          puzzle_file = data_dir @ ''/puzzles/'' @ pad2 day @ ''.md''
      in case read_text fs puzzle_file of
           None \<Rightarrow> Inl (FileNotFoundError
             (''Puzzle file not found: '' @ puzzle_file @ [CHR 0x0A] @
              ''Download it with: python main.py download '' @ str_int day))
         | Some text \<Rightarrow> Inr text)"

section \<open>\<open>src/template.py\<close>\<close>

definition load_config :: "env \<Rightarrow> pyexc + (string \<times> int) list" where
  "load_config e =
     (case config_file e of
        None \<Rightarrow> Inl (FileNotFoundError
          (''[Errno 2] No such file or directory: '' @ [CHR 0x27] @ ''.aoc-cli.json'' @ [CHR 0x27]))
      | Some text \<Rightarrow> json_load e text)"

definition config_year :: "(string \<times> int) list \<Rightarrow> int" where
  \<comment> \<open>\<open>config.get("year", 2025)\<close>\<close>
  "config_year config = (case map_of config ''year'' of None \<Rightarrow> 2025 | Some y \<Rightarrow> y)"

definition read_template :: "env \<Rightarrow> pyexc + string" where
  "read_template e =
     (case template_file e of
        None \<Rightarrow> Inl (FileNotFoundError
          (''[Errno 2] No such file or directory: '' @ [CHR 0x27] @
           ''src/solutions/template.txt'' @ [CHR 0x27]))
      | Some text \<Rightarrow> Inr text)"

definition get_solutions_dir :: "int option \<Rightarrow> path" where
  "get_solutions_dir year =
     (case year of None \<Rightarrow> ''src/solutions'' | Some y \<Rightarrow> str_int y @ ''/solutions'')"

definition get_tests_dir :: "int option \<Rightarrow> path" where
  "get_tests_dir year = (case year of None \<Rightarrow> ''tests'' | Some y \<Rightarrow> str_int y @ ''/tests'')"

definition conftest_content :: string where
  \<open>conftest_content = unlines [
     ''"""Pytest configuration for year folder."""'',
     '''',
     ''import re'',
     ''import sys'',
     ''from pathlib import Path'',
     '''',
     ''import pytest'',
     '''',
     ''from src.aoc_cli import read_example'',
     '''',
     ''# Add year solutions to path so imports work'',
     ''year_dir = Path(__file__).parent.parent'',
     ''sys.path.insert(0, str(year_dir))'',
     '''',
     '''',
     ''@pytest.fixture'',
     ''def example(request):'',
     ''    """'',
     ''    Load example input automatically from data/examples/{day}.txt.'',
     '''',
     ''    Extracts the day number from the test file name (e.g., test_day01.py -> 01)'',
     ''    and loads the corresponding example file from the year-specific data dir.'',
     ''    """'',
     ''    test_file = Path(request.fspath).name  # e.g., "test_day01.py"'',
     ''    match = re.search(r"day('' @ [CHR 0x5C] @ ''d+)", test_file)'',
     ''    if not match:'',
     ''        raise ValueError(f"Could not extract day number from {test_file}")'',
     '''',
     ''    day = int(match.group(1))'',
     ''    year_dir_obj = Path(__file__).parent.parent'',
     ''    return read_example(day, int(year_dir_obj.name))''
   ]\<close>

definition test_content :: "int \<Rightarrow> int \<Rightarrow> string \<Rightarrow> string" where
  \<open>test_content year day day_padded = unlines [
     ''"""Tests for Day '' @ day_padded @ ''."""'',
     '''',
     ''import sys'',
     ''from pathlib import Path'',
     '''',
     ''import pytest'',
     '''',
     ''# Add year solutions to path so imports work'',
     ''sys.path.insert(0, str(Path(__file__).parent.parent))'',
     '''',
     ''from solutions.day'' @ day_padded @ '' import parse_input, part_one, part_two'',
     '''',
     '''',
     ''def test_parse_input(example):'',
     ''    """Test input parsing."""'',
     ''    data = parse_input(example)'',
     ''    assert data is not None'',
     '''',
     '''',
     ''def test_part_one(example):'',
     ''    """Test part one with example data."""'',
     ''    data = parse_input(example)'',
     ''    result = part_one(data)'',
     ''    assert result == 0  # Update with expected value'',
     '''',
     '''',
     ''def test_part_two(example):'',
     ''    """Test part two with example data."""'',
     ''    data = parse_input(example)'',
     ''    result = part_two(data)'',
     ''    assert result == 0  # Update with expected value'',
     '''',
     '''',
     ''@pytest.mark.benchmark'',
     ''def test_benchmark_part_one(benchmark):'',
     ''    """Benchmark part one."""'',
     ''    from src.aoc_cli import read_input'',
     '''',
     ''    try:'',
     ''        input_text = read_input('' @ str_int day @ '', '' @ str_int year @ '')'',
     ''        data = parse_input(input_text)'',
     ''        benchmark(part_one, data)'',
     ''    except FileNotFoundError:'',
     ''        pytest.skip("Input file not found")'',
     '''',
     '''',
     ''@pytest.mark.benchmark'',
     ''def test_benchmark_part_two(benchmark):'',
     ''    """Benchmark part two."""'',
     ''    from src.aoc_cli import read_input'',
     '''',
     ''    try:'',
     ''        input_text = read_input('' @ str_int day @ '', '' @ str_int year @ '')'',
     ''        data = parse_input(input_text)'',
     ''        benchmark(part_two, data)'',
     ''    except FileNotFoundError:'',
     ''        pytest.skip("Input file not found")''
   ]\<close>

definition solution_path :: "int \<Rightarrow> int \<Rightarrow> path" where
  "solution_path year day = str_int year @ ''/solutions'' @ ''/day'' @ pad2 day @ ''.py''"

definition test_path :: "int \<Rightarrow> int \<Rightarrow> path" where
  "test_path year day = str_int year @ ''/tests'' @ ''/test_day'' @ pad2 day @ ''.py''"

definition example_path :: "int \<Rightarrow> int \<Rightarrow> path" where
  "example_path year day = str_int year @ ''/data'' @ ''/examples/'' @ pad2 day @ ''.txt''"

definition input_path :: "int \<Rightarrow> int \<Rightarrow> path" where
  "input_path year day = str_int year @ ''/data'' @ ''/inputs/'' @ pad2 day @ ''.txt''"

definition puzzle_path :: "int \<Rightarrow> int \<Rightarrow> path" where
  "puzzle_path year day = str_int year @ ''/data'' @ ''/puzzles/'' @ pad2 day @ ''.md''"

definition conftest_path :: "int \<Rightarrow> path" where
  "conftest_path year = str_int year @ ''/tests'' @ ''/conftest.py''"

definition try_download :: "env \<Rightarrow> fs \<Rightarrow> int \<Rightarrow> int \<Rightarrow> fs \<times> string list" where
  \<comment> \<open>the \<open>try\<close> block of \<open>scaffold_day\<close>: both downloads, any exception printed as a warning\<close>
  "try_download e fs day year =
     (case download_input e fs day year of
        (fs1, Inl ex) \<Rightarrow> (fs1, [''Warning: Could not download data: '' @ exc_str ex])
      | (fs1, Inr _) \<Rightarrow>
          (case download_puzzle e fs1 day year of
             (fs2, Inl ex) \<Rightarrow> (fs2, [''Warning: Could not download data: '' @ exc_str ex])
           | (fs2, Inr _) \<Rightarrow> (fs2, [])))"

definition scaffold_day ::
  "env \<Rightarrow> fs \<Rightarrow> int \<Rightarrow> bool \<Rightarrow> fs \<times> string list \<times> (pyexc + path \<times> path \<times> path)" where
  \<comment> \<open>the file system afterwards, the lines printed, and the exception raised or the paths returned\<close>
  "scaffold_day e fs day download =
     (case load_config e of
        Inl ex \<Rightarrow> (fs, [], Inl ex)
      | Inr config \<Rightarrow>
         (let year = config_year config;
              day_padded = pad2 day
          in if path_exists fs (solution_path year day) then
               (fs, [], Inl (FileExistsError (''Solution for day '' @ str_int day @ '' already exists'')))
             else
               (let (fs1, printed) = (if download then try_download e fs day year else (fs, []));
                    fs2 = touch fs1 (str_int year @ ''/solutions'' @ ''/__init__.py'');
                    fs3 = touch fs2 (str_int year @ ''/tests'' @ ''/__init__.py'');
                    fs4 = (if \<not> path_exists fs3 (conftest_path year)
                           then write_text fs3 (conftest_path year) conftest_content else fs3)
                in case read_template e of
                     Inl ex \<Rightarrow> (fs4, printed, Inl ex)
                   | Inr template \<Rightarrow>
                      (case str_format e template year day day_padded of
                         Inl ex \<Rightarrow> (fs4, printed, Inl ex)
                       | Inr solution_content \<Rightarrow>
                          (let fs5 = write_text fs4 (solution_path year day) solution_content;
                               fs6 = write_text fs5 (test_path year day)
                                       (test_content year day day_padded);
                               fs7 = (if \<not> path_exists fs6 (example_path year day)
                                      then touch fs6 (example_path year day) else fs6);
                               fs8 = (if \<not> path_exists fs7 (input_path year day)
                                      then touch fs7 (input_path year day) else fs7);
                               fs9 = (if \<not> path_exists fs8 (puzzle_path year day)
                                      then touch fs8 (puzzle_path year day) else fs8)
                           in (fs9, printed,
                               Inr (solution_path year day, test_path year day,
                                    example_path year day)))))))"

fun collect_days :: "string list \<Rightarrow> int list \<Rightarrow> int list" where
  \<comment> \<open>the loop of \<open>get_available_days\<close> over the file names found\<close>
  "collect_days [] days = days"
| "collect_days (file # files) days =
     (case py_int (str_remove ''day'' (stem file)) of
        Some day_num \<Rightarrow> collect_days files (days @ [day_num])
      | None \<Rightarrow> collect_days files days)"

definition get_available_days :: "fs \<Rightarrow> int option \<Rightarrow> int list" where
  "get_available_days fs year =
     (let solutions_dir = (case year of None \<Rightarrow> ''src/solutions''
                                       | Some y \<Rightarrow> str_int y @ ''/solutions'')
      in sort (collect_days (glob_day_py fs solutions_dir) []))"

section \<open>\<open>src/runner.py\<close>\<close>

text \<open>
  A loaded solution module: each of the three callables is present or not. The payloads
  \<open>'d\<close> (parsed data) and \<open>'r\<close> (a result) are opaque. \<open>part_one\<close> and \<open>part_two\<close>
  give their result with the elapsed time that the two \<open>perf_counter\<close> readings around
  the call measure; times are of any type \<open>'t\<close> with a zero and an addition, and no law
  is assumed of the addition. A callable that raises gives \<open>Inl\<close>; the exceptions are
  those of class \<open>Exception\<close>, and the callables are taken to return.
\<close>

record ('d, 'r, 't) solution_module =
  parse_input :: "(string \<Rightarrow> pyexc + 'd) option"
  part_one :: "('d \<Rightarrow> pyexc + 'r \<times> 't) option"
  part_two :: "('d \<Rightarrow> pyexc + 'r \<times> 't) option"

text \<open>
  The interpreter is a parameter: \<open>exec_module name location source\<close> is the module
  that executing the text \<open>source\<close> of the file at \<open>location\<close> under the module name
  \<open>name\<close> builds, or the exception it raises. A module built by \<open>module_from_spec\<close>
  and \<open>exec_module\<close> is not entered in \<open>sys.modules\<close>, and no operation of the program
  reads or writes that table, so the model has none.
\<close>

type_synonym ('d, 'r, 't) interpreter =
  "string \<Rightarrow> path \<Rightarrow> string \<Rightarrow> pyexc + ('d, 'r, 't) solution_module"

datatype ('r, 't) line =
    Out string
  | Err string
  | Part_line nat 'r 't
  | Day_line string 'r 'r 't
  | Total_line 't

definition check_mark :: string where
  "check_mark = [CHR 0xE2, CHR 0x9C, CHR 0x93]"

definition cross_mark :: string where
  "cross_mark = [CHR 0xE2, CHR 0x9C, CHR 0x97]"

definition skip_mark :: string where
  "skip_mark = [CHR 0xE2, CHR 0x8A, CHR 0x98]"

definition module_path :: "int option \<Rightarrow> int \<Rightarrow> path" where
  "module_path year day =
     (case year of
        None \<Rightarrow> ''src'' @ ''/solutions'' @ ''/day'' @ pad2 day @ ''.py''
      | Some y \<Rightarrow> str_int y @ ''/solutions'' @ ''/day'' @ pad2 day @ ''.py'')"

definition spec_from_file_location :: "string \<Rightarrow> path \<Rightarrow> (string \<times> path) option" where
  \<comment> \<open>a spec exists when a loader handles the file's suffix; of those only the source
      suffix occurs in the paths built here\<close>
  "spec_from_file_location name location =
     (if endswith ''.py'' location then Some (name, location) else None)"

definition load_spec ::
  "('d, 'r, 't) interpreter \<Rightarrow> fs \<Rightarrow> string \<times> path \<Rightarrow> pyexc + ('d, 'r, 't) solution_module" where
  \<comment> \<open>\<open>module_from_spec(spec)\<close> and \<open>spec.loader.exec_module(module)\<close>\<close>
  "load_spec ex fs spec =
     (case read_text fs (snd spec) of
        None \<Rightarrow> Inl (FileNotFoundError
          (''[Errno 2] No such file or directory: '' @ [CHR 0x27] @ snd spec @ [CHR 0x27]))
      | Some source \<Rightarrow> ex (fst spec) (snd spec) source)"

definition no_attribute :: "string \<Rightarrow> string \<Rightarrow> pyexc" where
  "no_attribute name attr = AttributeError
     (''module '' @ [CHR 0x27] @ name @ [CHR 0x27] @ '' has no attribute '' @
      [CHR 0x27] @ attr @ [CHR 0x27])"

definition run_day_failed :: "int \<Rightarrow> ('r, 't) line list \<Rightarrow> pyexc \<Rightarrow> ('r, 't) line list \<times> int" where
  \<comment> \<open>the handler \<open>except Exception as e\<close> of \<open>run_day\<close>\<close>
  "run_day_failed day printed ex =
     (printed @ [Err (cross_mark @ '' Error running day '' @ str_int day @ '': '' @ exc_str ex)], 1)"

definition run_solution ::
  "string \<Rightarrow> int \<Rightarrow> ('d, 'r, 't) solution_module \<Rightarrow> string \<Rightarrow> ('r, 't) line list \<times> int" where
  \<comment> \<open>\<open>run_day\<close> from \<open>data = module.parse_input(input_text)\<close> on, for the module loaded
      under the name \<open>name\<close>\<close>
  "run_solution name day module input_text =
     (case parse_input module of
        None \<Rightarrow> run_day_failed day [] (no_attribute name ''parse_input'')
      | Some parse \<Rightarrow>
         (case parse input_text of
            Inl exn \<Rightarrow> run_day_failed day [] exn
          | Inr data \<Rightarrow>
             (let printed = [Out (''Day '' @ pad2 day), Out (replicate 40 CHR ''-'')]
              in case part_one module of
                   None \<Rightarrow> run_day_failed day printed (no_attribute name ''part_one'')
                 | Some one \<Rightarrow>
                    (case one data of
                       Inl exn \<Rightarrow> run_day_failed day printed exn
                     | Inr (result1, time1) \<Rightarrow>
                        (case part_two module of
                           None \<Rightarrow> run_day_failed day printed (no_attribute name ''part_two'')
                         | Some two \<Rightarrow>
                            (case two data of
                               Inl exn \<Rightarrow> run_day_failed day printed exn
                             | Inr (result2, time2) \<Rightarrow>
                                (printed @ [Part_line 1 result1 time1,
                                            Part_line 2 result2 time2], 0)))))))"

definition run_day ::
  "('d, 'r, 't) interpreter \<Rightarrow> fs \<Rightarrow> int \<Rightarrow> int option \<Rightarrow> ('r, 't) line list \<times> int" where
  \<comment> \<open>the lines printed and the exit status (0 when the function returns)\<close>
  "run_day ex fs day year =
     (let day_padded = pad2 day;
          module_file = module_path year day
      in if \<not> path_exists fs module_file then
           ([Err (cross_mark @ '' Error: Solution for day '' @ str_int day @ '' not found'')], 1)
         else
           (case spec_from_file_location (''day'' @ day_padded) module_file of
              None \<Rightarrow> run_day_failed day [] (ImportError (''Could not load '' @ module_file))
            | Some spec \<Rightarrow>
               (case load_spec ex fs spec of
                  Inl exn \<Rightarrow> run_day_failed day [] exn
                | Inr module \<Rightarrow>
                   (case read_input fs day year of
                      Inl (FileNotFoundError m) \<Rightarrow>
                        ([Err (cross_mark @ '' Error: Input file not found for day '' @ str_int day)], 1)
                    | Inl exn \<Rightarrow> run_day_failed day [] exn
                    | Inr input_text \<Rightarrow> run_solution (fst spec) day module input_text))))"

definition run_all_body ::
  "('d, 'r, 't::{zero,plus}) interpreter \<Rightarrow> fs \<Rightarrow> int option \<Rightarrow> int \<Rightarrow> 't \<Rightarrow> 't \<times> ('r, 't) line list" where
  \<comment> \<open>one iteration of the loop of \<open>run_all\<close>: the new \<open>total_time\<close> and the lines printed\<close>
  "run_all_body ex fs year day total_time =
     (let day_padded = pad2 day;
          module_file = module_path year day;
          failed = (\<lambda>exn. (total_time, [Out (cross_mark @ '' Day '' @ day_padded @ '': '' @ exc_str exn)]))
      in case spec_from_file_location (''day'' @ day_padded) module_file of
           None \<Rightarrow> (total_time, [Out (cross_mark @ '' Day '' @ day_padded @ '': Could not load module'')])
         | Some spec \<Rightarrow>
            (case load_spec ex fs spec of
               Inl exn \<Rightarrow> failed exn
             | Inr module \<Rightarrow>
                (case read_input fs day year of
                   Inl (FileNotFoundError m) \<Rightarrow>
                     (total_time, [Out (skip_mark @ '' Day '' @ day_padded @ '': Input file not found'')])
                 | Inl exn \<Rightarrow> failed exn
                 | Inr input_text \<Rightarrow>
                    (case parse_input module of
                       None \<Rightarrow> failed (no_attribute (fst spec) ''parse_input'')
                     | Some parse \<Rightarrow>
                        (case parse input_text of
                           Inl exn \<Rightarrow> failed exn
                         | Inr data \<Rightarrow>
                            (case part_one module of
                               None \<Rightarrow> failed (no_attribute (fst spec) ''part_one'')
                             | Some one \<Rightarrow>
                                (case one data of
                                   Inl exn \<Rightarrow> failed exn
                                 | Inr (result1, time1) \<Rightarrow>
                                    (case part_two module of
                                       None \<Rightarrow> failed (no_attribute (fst spec) ''part_two'')
                                     | Some two \<Rightarrow>
                                        (case two data of
                                           Inl exn \<Rightarrow> failed exn
                                         | Inr (result2, time2) \<Rightarrow>
                                            (let elapsed = time1 + time2
                                             in (total_time + elapsed,
                                                 [Day_line day_padded result1 result2 elapsed])))))))))))"

fun run_all_loop ::
  "('d, 'r, 't::{zero,plus}) interpreter \<Rightarrow> fs \<Rightarrow> int option \<Rightarrow> int list \<Rightarrow> 't \<Rightarrow> ('r, 't) line list
     \<Rightarrow> 't \<times> ('r, 't) line list" where
  "run_all_loop ex fs year [] total_time printed = (total_time, printed)"
| "run_all_loop ex fs year (day # days) total_time printed =
     (case run_all_body ex fs year day total_time of
        (total_time', ls) \<Rightarrow> run_all_loop ex fs year days total_time' (printed @ ls))"

definition run_all ::
  "('d, 'r, 't::{zero,plus}) interpreter \<Rightarrow> fs \<Rightarrow> int option \<Rightarrow> ('r, 't) line list" where
  "run_all ex fs year =
     (let available_days = get_available_days fs year
      in if available_days = [] then [Out ''No solutions found'']
         else
           (let printed = [Out (''Running '' @ str_nat (length available_days) @ '' days...''),
                           Out (replicate 40 CHR ''='')]
            in case run_all_loop ex fs year available_days 0 printed of
                 (total_time, printed') \<Rightarrow>
                   printed' @ [Out (replicate 40 CHR ''=''), Total_line total_time]))"

definition time_day :: "env \<Rightarrow> fs \<Rightarrow> int \<Rightarrow> int option \<Rightarrow> ('r, 't) line list \<times> int" where
  "time_day e fs day year =
     (let day_padded = pad2 day;
          test_file = (case year of
                         None \<Rightarrow> ''tests'' @ ''/test_day'' @ day_padded @ ''.py''
                       | Some y \<Rightarrow> str_int y @ ''/tests'' @ ''/test_day'' @ day_padded @ ''.py'')
      in if \<not> path_exists fs test_file then
           ([Err (cross_mark @ '' Error: Test file for day '' @ str_int day @ '' not found'')], 1)
         else ([], run_pytest e test_file))"

definition time_all :: "env \<Rightarrow> fs \<Rightarrow> int option \<Rightarrow> ('r, 't) line list \<times> int" where
  "time_all e fs year =
     (let available_days = get_available_days fs year
      in if available_days = [] then ([Out ''No solutions found''], 0)
         else
           (let test_dir = (case year of None \<Rightarrow> ''tests/'' | Some y \<Rightarrow> str_int y @ ''/tests/'')
            in ([], run_pytest e test_dir)))"

section \<open>\<open>main.py\<close>\<close>

datatype command =
    Scaffold int bool
  | Download int bool bool
  | Read int
  | Solve int bool
  | All
  | Time "int option" bool
  | No_command

text \<open>
  The parsed command line: \<open>year_flag\<close> is the value of \<open>--year\<close> when the flag is given;
  \<open>Download day input_only puzzle_only\<close>, \<open>Solve day release\<close> and \<open>Time day all\<close> carry
  their options in the order of the parser. Without a command \<open>main\<close> prints the help
  text of the parser, of which the model keeps the first line.
\<close>

record args =
  year_flag :: "int option"
  command :: command

datatype status = Exit int | Uncaught pyexc

definition main ::
  "env \<Rightarrow> ('d, 'r, 't::{zero,plus}) interpreter \<Rightarrow> fs \<Rightarrow> args \<Rightarrow> fs \<times> ('r, 't) line list \<times> status" where
  \<comment> \<open>the file system afterwards, the lines printed, and how the process ends\<close>
  "main e ex fs a =
     (case load_config e of
        Inl exn \<Rightarrow> (fs, [], Uncaught exn)
      | Inr config \<Rightarrow>
         (let year = config_year config;
              current_year = (case year_flag a of None \<Rightarrow> year | Some y \<Rightarrow> y)
          in case command a of
               Scaffold day download \<Rightarrow>
                 (case scaffold_day e fs day download of
                    (fs', printed, Inr (solution_file, test_file, example_file)) \<Rightarrow>
                      (fs', map Out printed @
                         [Out (check_mark @ '' Scaffolded day '' @ pad2 day),
                          Out (''  Solution: '' @ solution_file),
                          Out (''  Tests: '' @ test_file),
                          Out (''  Example: '' @ example_file)] @
                         (if download then [Out ''  Input and puzzle downloaded''] else []),
                       Exit 0)
                  | (fs', printed, Inl (FileExistsError m)) \<Rightarrow>
                      (fs', map Out printed @ [Err (cross_mark @ '' Error: '' @ m)], Exit 1)
                  | (fs', printed, Inl exn) \<Rightarrow> (fs', map Out printed, Uncaught exn))
             | Download day input_only puzzle_only \<Rightarrow>
                 (if \<not> check_aoc_cli e then
                    (fs, [Err (cross_mark @ '' Error: aoc-cli not installed''),
                          Err ''Install with: cargo install aoc-cli'',
                          Err ''Configure with: aoc credentials -s <session_cookie>''], Exit 1)
                  else
                    (case (if \<not> puzzle_only then
                             (case download_input e fs day current_year of
                                (fs1, Inl exn) \<Rightarrow> (fs1, [], Some exn)
                              | (fs1, Inr _) \<Rightarrow>
                                  (fs1, [Out (check_mark @ '' Downloaded input for day '' @ pad2 day)], None))
                           else (fs, [], None)) of
                       (fs1, printed, Some exn) \<Rightarrow>
                         (fs1, printed @ [Err (cross_mark @ '' Error: '' @ exc_str exn)], Exit 1)
                     | (fs1, printed, None) \<Rightarrow>
                         (if \<not> input_only then
                            (case download_puzzle e fs1 day current_year of
                               (fs2, Inl exn) \<Rightarrow>
                                 (fs2, printed @ [Err (cross_mark @ '' Error: '' @ exc_str exn)], Exit 1)
                             | (fs2, Inr _) \<Rightarrow>
                                 (fs2, printed @
                                    [Out (check_mark @ '' Downloaded puzzle for day '' @ pad2 day)],
                                  Exit 0))
                          else (fs1, printed, Exit 0))))
             | Read day \<Rightarrow>
                 (case read_puzzle fs day (Some current_year) of
                    Inr puzzle \<Rightarrow> (fs, [Out puzzle], Exit 0)
                  | Inl (FileNotFoundError m) \<Rightarrow> (fs, [Err (cross_mark @ '' Error: '' @ m)], Exit 1)
                  | Inl exn \<Rightarrow> (fs, [], Uncaught exn))
             | Solve day release \<Rightarrow>
                 (case run_day ex fs day (Some current_year) of
                    (printed, code) \<Rightarrow> (fs, printed, Exit code))
             | All \<Rightarrow> (fs, run_all ex fs (Some current_year), Exit 0)
             | Time day all \<Rightarrow>
                 (if all then
                    (case time_all e fs (Some current_year) of
                       (printed, code) \<Rightarrow> (fs, printed, Exit code))
                  else
                    (case day of
                       Some d \<Rightarrow>
                         (if d \<noteq> 0 then
                            (case time_day e fs d (Some current_year) of
                               (printed, code) \<Rightarrow> (fs, printed, Exit code))
                          else (fs, [Err (cross_mark @ '' Error: Specify a day or use --all'')], Exit 1))
                     | None \<Rightarrow>
                         (fs, [Err (cross_mark @ '' Error: Specify a day or use --all'')], Exit 1)))
             | No_command \<Rightarrow> (fs, [Out ''usage: main.py [-h] [--year YEAR] ...''], Exit 0)))"

section \<open>Auxiliary notions for the properties\<close>

definition is_digit :: "char \<Rightarrow> bool" where
  "is_digit c = (digit_val c \<noteq> None)"

definition digits_value :: "nat \<Rightarrow> string \<Rightarrow> nat" where
  "digits_value acc s = foldl (\<lambda>a c. 10 * a + the (digit_val c)) acc s"

text \<open>A sample environment: a configuration for 2024, a one-line template, no \<open>aoc\<close> tool.\<close>

definition demo_env :: env where
  "demo_env = \<lparr>config_file = Some ''{}'', json_load = (\<lambda>text. Inr [(''year'', 2024)]),
     template_file = Some ''# day '', str_format = (\<lambda>t y d dp. Inr (t @ dp)),
     aoc_installed = False,
     aoc_download = (\<lambda>k y d. \<lparr>returncode = 1, written = None, out_text = [], err_text = []\<rparr>),
     run_pytest = (\<lambda>p. 0)\<rparr>"

definition day_of_name :: "string \<Rightarrow> int option" where
  \<comment> \<open>the day number that \<open>get_available_days\<close> reads from a file name\<close>
  "day_of_name file = py_int (str_remove ''day'' (stem file))"

definition canonical_names :: "fs \<Rightarrow> path \<Rightarrow> bool" where
  \<comment> \<open>every matching file whose day portion parses carries the name that the
      scaffold gives to that day\<close>
  "canonical_names fs d =
     (\<forall>name \<in> set (glob_day_py fs d).
        case day_of_name name of None \<Rightarrow> True | Some n \<Rightarrow> name = ''day'' @ pad2 n @ ''.py'')"

text \<open>Two sample solution directories of the year 2025: one as the scaffold leaves it
  (with a stray, unparsable name), one with the same day under two spellings.\<close>

definition demo_solutions :: fs where
  "demo_solutions =
     [(''2025/solutions/day03.py'', ''three''), (''2025/solutions/__init__.py'', ''''),
      (''2025/solutions/day01.py'', ''one''), (''2025/solutions/daybreak.py'', ''stray'')]"

definition stray_solutions :: fs where
  "stray_solutions = [(''2025/solutions/day01.py'', ''''), (''2025/solutions/day1.py'', '''')]"

text \<open>The two package markers that \<open>scaffold_day\<close> touches.\<close>

definition solutions_init :: "int \<Rightarrow> path" where
  "solutions_init year = str_int year @ ''/solutions'' @ ''/__init__.py''"

definition tests_init :: "int \<Rightarrow> path" where
  "tests_init year = str_int year @ ''/tests'' @ ''/__init__.py''"

text \<open>The download step of \<open>scaffold_day\<close>: the file system and the lines printed
  after it.\<close>

definition download_step :: "env \<Rightarrow> fs \<Rightarrow> int \<Rightarrow> int \<Rightarrow> bool \<Rightarrow> fs \<times> string list" where
  "download_step e fs day year download = (if download then try_download e fs day year else (fs, []))"

text \<open>The contents of every path after a scaffold that got through, from the file system
  \<open>fs1\<close> that the download step left.\<close>

definition scaffolded :: "int \<Rightarrow> int \<Rightarrow> string \<Rightarrow> fs \<Rightarrow> path \<Rightarrow> string option" where
  "scaffolded year day content fs1 p =
     (if p = solution_path year day then Some content
      else if p = test_path year day then Some (test_content year day (pad2 day))
      else if p = conftest_path year \<and> read_text fs1 p = None then Some conftest_content
      else if p \<in> {solutions_init year, tests_init year, example_path year day,
                    input_path year day, puzzle_path year day} \<and> read_text fs1 p = None
           then Some []
      else read_text fs1 p)"



text \<open>A sample interpreter, told by the source text what the module is to be: a complete
  module (data: the length of the input), one without \<open>part_two\<close>, one whose
  \<open>part_one\<close> raises, or a source that does not execute.\<close>

definition demo_module :: "(nat, nat, nat) solution_module" where
  "demo_module = \<lparr>parse_input = Some (\<lambda>text. Inr (length text)),
                   part_one = Some (\<lambda>n. Inr (n, 3)),
                   part_two = Some (\<lambda>n. Inr (n + 1, 4))\<rparr>"

definition demo_exec :: "(nat, nat, nat) interpreter" where
  "demo_exec name location source =
     (if source = ''broken'' then Inl (OtherError ''invalid syntax'')
      else if source = ''no part_two'' then Inr (demo_module\<lparr>part_two := None\<rparr>)
      else if source = ''raises'' then
        Inr (demo_module\<lparr>part_one := Some (\<lambda>n. Inl (ValueError ''bad input''))\<rparr>)
      else Inr demo_module)"







text \<open>Day 1 of 2025 with a solution file whose module has no \<open>part_two\<close>, with and
  without its input file.\<close>

definition demo_incomplete :: fs where
  "demo_incomplete =
     [(''2025/solutions/day01.py'', ''no part_two''), (''2025/data/inputs/01.txt'', ''abc'')]"

definition demo_incomplete_no_input :: fs where
  "demo_incomplete_no_input = [(''2025/solutions/day01.py'', ''no part_two'')]"



section \<open>Decimal text and its parsing\<close>

lemma digit_val_digit_char: "k < 10 \<Longrightarrow> digit_val (digit_char k) = Some k"
proof -
  assume "k < 10"
  then have "k \<in> {0, 1, 2, 3, 4, 5, 6, 7, 8, 9}" by auto
  then show ?thesis
    by (auto simp: digit_val_def digit_char_def)
qed

lemma str_nat_digits: "c \<in> set (str_nat n) \<Longrightarrow> is_digit c"
proof (induction n arbitrary: c rule: str_nat.induct)
  case (1 n)
  show ?case
  proof (cases "n < 10")
    case True
    with "1.prems" show ?thesis
      by (simp add: str_nat.simps[of n] is_digit_def digit_val_digit_char)
  next
    case False
    with "1.prems" have "c \<in> set (str_nat (n div 10)) \<or> c = digit_char (n mod 10)"
      by (auto simp: str_nat.simps[of n])
    then show ?thesis
      using "1.IH"[OF False] by (auto simp: is_digit_def digit_val_digit_char)
  qed
qed

lemma str_nat_nonempty: "str_nat n \<noteq> []"
  by (simp add: str_nat.simps[of n])

lemma digits_value_str_nat: "digits_value 0 (str_nat n) = n"
proof (induction n rule: str_nat.induct)
  case (1 n)
  show ?case
  proof (cases "n < 10")
    case True
    then show ?thesis
      by (simp add: str_nat.simps[of n] digits_value_def digit_val_digit_char)
  next
    case False
    then have "digits_value 0 (str_nat n) = 10 * digits_value 0 (str_nat (n div 10)) + n mod 10"
      by (simp add: str_nat.simps[of n] digits_value_def digit_val_digit_char)
    with "1.IH"[OF False] show ?thesis by simp
  qed
qed

lemma py_digits_all_digits:
  "\<forall>c \<in> set s. is_digit c \<Longrightarrow> py_digits acc s = Some (digits_value acc s)"
proof (induction s arbitrary: acc)
  case Nil
  then show ?case by (simp add: digits_value_def)
next
  case (Cons c s)
  then have d: "is_digit c" by simp
  then have "c \<noteq> CHR ''_''" by (auto simp: is_digit_def digit_val_def)
  with d Cons show ?case
    by (auto simp: is_digit_def digits_value_def)
qed

lemma py_nat_all_digits:
  assumes "s \<noteq> []" and "\<forall>c \<in> set s. is_digit c"
  shows "py_nat s = Some (digits_value 0 s)"
proof (cases s)
  case Nil
  with assms show ?thesis by simp
next
  case (Cons c cs)
  with assms have "is_digit c" "\<forall>x \<in> set cs. is_digit x" by auto
  then show ?thesis
    using py_digits_all_digits[of cs] Cons
    by (auto simp: py_nat_def is_digit_def digits_value_def)
qed

lemma digits_value_zeros: "digits_value 0 (replicate k CHR ''0'' @ s) = digits_value 0 s"
  by (induction k) (simp_all add: digits_value_def digit_val_def)

lemma is_digit_not_space: "is_digit c \<Longrightarrow> \<not> is_space c"
  by (auto simp: is_digit_def digit_val_def is_space_def)

lemma strip_id:
  assumes "s \<noteq> []" and "\<not> is_space (hd s)" and "\<not> is_space (last s)"
  shows "strip s = s"
proof -
  have 1: "dropWhile is_space s = s"
    using assms by (cases s) auto
  have "rev s \<noteq> []" "\<not> is_space (hd (rev s))"
    using assms by (simp_all add: hd_rev)
  then have "dropWhile is_space (rev s) = rev s"
    by (cases "rev s") auto
  with 1 show ?thesis by (simp add: strip_def)
qed

lemma py_int_pad2: "py_int (pad2 n) = Some n"
proof (cases "n < 0")
  case True
  let ?s = "str_nat (nat (- n))"
  have p: "pad2 n = CHR ''-'' # ?s" using True by (simp add: pad2_def)
  have "is_digit (last ?s)"
    using str_nat_digits[of "last ?s" "nat (- n)"] str_nat_nonempty[of "nat (- n)"] by simp
  then have "strip (pad2 n) = pad2 n"
    unfolding p using str_nat_nonempty[of "nat (- n)"]
    by (intro strip_id) (auto simp: is_space_def dest: is_digit_not_space)
  moreover have "py_nat ?s = Some (nat (- n))"
    using py_nat_all_digits[of ?s] str_nat_nonempty str_nat_digits digits_value_str_nat by auto
  ultimately show ?thesis
    using True by (simp add: py_int_def p)
next
  case False
  let ?s = "str_nat (nat n)"
  let ?z = "replicate (2 - length ?s) CHR ''0''"
  have p: "pad2 n = ?z @ ?s" using False by (simp add: pad2_def Let_def)
  have z: "is_digit CHR ''0''" by (simp add: is_digit_def digit_val_def)
  have all: "\<forall>c \<in> set (?z @ ?s). is_digit c"
    using str_nat_digits z by auto
  have ne: "?z @ ?s \<noteq> []" using str_nat_nonempty by simp
  have "is_digit (hd (?z @ ?s))" "is_digit (last (?z @ ?s))"
    using all ne hd_in_set[OF ne] last_in_set[OF ne] by blast+
  then have st: "strip (?z @ ?s) = ?z @ ?s"
    using ne by (intro strip_id) (auto dest: is_digit_not_space)
  obtain c cs where cs: "?z @ ?s = c # cs" using ne by (cases "?z @ ?s") auto
  have c: "is_digit c" using all cs by (metis list.set_intros(1))
  then have c': "c \<noteq> CHR ''-''" "c \<noteq> CHR ''+''"
    by (auto simp: is_digit_def digit_val_def)
  have "py_nat (?z @ ?s) = Some (nat n)"
    using py_nat_all_digits[OF ne all] digits_value_zeros digits_value_str_nat by simp
  then show ?thesis
    using False c' st cs by (simp add: py_int_def p)
qed

lemma zero_is_digit: "is_digit CHR ''0''"
  by (simp add: is_digit_def digit_val_def)

lemma pad2_chars: "c \<in> set (pad2 n) \<Longrightarrow> is_digit c \<or> c = CHR ''-''"
proof (cases "n < 0")
  case True
  assume "c \<in> set (pad2 n)"
  with True have "c = CHR ''-'' \<or> c \<in> set (str_nat (nat (- n)))"
    by (auto simp: pad2_def)
  then show ?thesis using str_nat_digits by blast
next
  case False
  assume "c \<in> set (pad2 n)"
  with False have "c = CHR ''0'' \<or> c \<in> set (str_nat (nat n))"
    by (auto simp: pad2_def Let_def)
  then show ?thesis using str_nat_digits zero_is_digit by blast
qed

lemma str_nat_length: "Suc 0 \<le> length (str_nat k)"
  using str_nat_nonempty[of k] by (cases "str_nat k") simp_all

lemma pad2_length: "2 \<le> length (pad2 n)"
proof (cases "n < 0")
  case True
  then show ?thesis using str_nat_length[of "nat (- n)"] by (simp add: pad2_def)
next
  case False
  then show ?thesis using str_nat_length[of "nat n"] by (simp add: pad2_def Let_def)
qed

lemma pad2_inj: "pad2 m = pad2 n \<Longrightarrow> m = n"
  by (metis option.inject py_int_pad2)

section \<open>File system operations\<close>

lemma read_text_write_text:
  "read_text (write_text fs p text) q = (if q = p then Some text else read_text fs q)"
  by (simp add: read_text_def write_text_def update_conv')

lemma read_text_touch:
  "read_text (touch fs p) q = (if q = p \<and> read_text fs p = None then Some [] else read_text fs q)"
  by (auto simp: read_text_def touch_def path_exists_def update_conv')

lemma path_exists_read_text: "path_exists fs p = (read_text fs p \<noteq> None)"
  by (simp add: path_exists_def read_text_def)

lemma download_input_read:
  "download_input e fs day year = (fs', r) \<Longrightarrow> q \<noteq> input_path year day \<Longrightarrow>
     read_text fs' q = read_text fs q"
  by (auto simp: download_input_def Let_def input_path_def get_aoc_data_dir_def
      read_text_write_text split: if_splits option.splits)

lemma download_puzzle_read:
  "download_puzzle e fs day year = (fs', r) \<Longrightarrow> q \<noteq> puzzle_path year day \<Longrightarrow>
     read_text fs' q = read_text fs q"
  by (auto simp: download_puzzle_def Let_def puzzle_path_def get_aoc_data_dir_def
      read_text_write_text split: if_splits option.splits)

lemma try_download_read:
  assumes "try_download e fs day year = (fs', pr)"
    and "q \<noteq> input_path year day" and "q \<noteq> puzzle_path year day"
  shows "read_text fs' q = read_text fs q"
proof -
  obtain f1 r1 where d1: "download_input e fs day year = (f1, r1)" by (cases "download_input e fs day year")
  obtain f2 r2 where d2: "download_puzzle e f1 day year = (f2, r2)" by (cases "download_puzzle e f1 day year")
  have "fs' = f1 \<or> fs' = f2"
    using assms(1) d1 d2 by (auto simp: try_download_def split: sum.splits)
  then show ?thesis
    using download_input_read[OF d1 assms(2)] download_puzzle_read[OF d2 assms(3)] by auto
qed

lemma paths_distinct:
  "solution_path y d \<noteq> test_path y d"
  "solution_path y d \<noteq> example_path y d"
  "solution_path y d \<noteq> input_path y d"
  "solution_path y d \<noteq> puzzle_path y d"
  "solution_path y d \<noteq> conftest_path y"
  by (simp_all add: solution_path_def test_path_def example_path_def input_path_def puzzle_path_def conftest_path_def)


lemma path_exists_write_text:
  "path_exists (write_text fs p text) q = (q = p \<or> path_exists fs q)"
  by (simp add: path_exists_read_text read_text_write_text)

lemma path_exists_touch:
  "path_exists (touch fs p) q = (q = p \<or> path_exists fs q)"
  by (auto simp: path_exists_read_text read_text_touch)

section \<open>What a scaffold writes\<close>

lemmas path_defs = solution_path_def test_path_def example_path_def input_path_def
  puzzle_path_def conftest_path_def solutions_init_def tests_init_def

lemma scaffold_day_exists:
  "load_config e = Inr config \<Longrightarrow> path_exists fs (solution_path (config_year config) d) \<Longrightarrow>
     scaffold_day e fs d dl =
       (fs, [], Inl (FileExistsError (''Solution for day '' @ str_int d @ '' already exists'')))"
  by (simp add: scaffold_day_def)

lemma scaffold_day_fresh:
  assumes cfg: "load_config e = Inr config"
    and tpl: "read_template e = Inr template"
    and fmt: "str_format e template (config_year config) d (pad2 d) = Inr content"
    and fresh: "\<not> path_exists fs (solution_path (config_year config) d)"
    and dl: "download_step e fs d (config_year config) dl = (fs1, printed)"
  shows "\<exists>fs'. scaffold_day e fs d dl =
            (fs', printed, Inr (solution_path (config_year config) d,
                                test_path (config_year config) d,
                                example_path (config_year config) d)) \<and>
          (\<forall>p. read_text fs' p = scaffolded (config_year config) d content fs1 p)"
proof -
  let ?y = "config_year config"
  define fs2 where "fs2 = touch fs1 (solutions_init ?y)"
  define fs3 where "fs3 = touch fs2 (tests_init ?y)"
  define fs4 where "fs4 = (if \<not> path_exists fs3 (conftest_path ?y)
                           then write_text fs3 (conftest_path ?y) conftest_content else fs3)"
  define fs5 where "fs5 = write_text fs4 (solution_path ?y d) content"
  define fs6 where "fs6 = write_text fs5 (test_path ?y d) (test_content ?y d (pad2 d))"
  define fs7 where "fs7 = (if \<not> path_exists fs6 (example_path ?y d)
                                      then touch fs6 (example_path ?y d) else fs6)"
  define fs8 where "fs8 = (if \<not> path_exists fs7 (input_path ?y d)
                                      then touch fs7 (input_path ?y d) else fs7)"
  define fs9 where "fs9 = (if \<not> path_exists fs8 (puzzle_path ?y d)
                                      then touch fs8 (puzzle_path ?y d) else fs8)"
  have run: "scaffold_day e fs d dl =
      (fs9, printed, Inr (solution_path ?y d, test_path ?y d, example_path ?y d))"
    using fresh dl
    by (simp add: scaffold_day_def cfg tpl fmt Let_def download_step_def fs2_def fs3_def fs4_def
        fs5_def fs6_def fs7_def fs8_def fs9_def solutions_init_def tests_init_def)
  have r2: "read_text fs2 p = (if p = solutions_init ?y \<and> read_text fs1 p = None then Some [] else read_text fs1 p)" for p
    by (auto simp: fs2_def read_text_touch)
  have r3: "read_text fs3 p = (if p = tests_init ?y \<and> read_text fs2 p = None then Some [] else read_text fs2 p)" for p
    by (auto simp: fs3_def read_text_touch)
  have r4: "read_text fs4 p = (if p = conftest_path ?y \<and> read_text fs3 p = None then Some conftest_content else read_text fs3 p)" for p
    by (auto simp: fs4_def read_text_write_text path_exists_read_text)
  have r5: "read_text fs5 p = (if p = solution_path ?y d then Some content else read_text fs4 p)" for p
    by (simp add: fs5_def read_text_write_text)
  have r6: "read_text fs6 p = (if p = test_path ?y d then Some (test_content ?y d (pad2 d)) else read_text fs5 p)" for p
    by (simp add: fs6_def read_text_write_text)
  have r7: "read_text fs7 p = (if p = example_path ?y d \<and> read_text fs6 p = None then Some [] else read_text fs6 p)" for p
    by (auto simp: fs7_def read_text_touch path_exists_read_text)
  have r8: "read_text fs8 p = (if p = input_path ?y d \<and> read_text fs7 p = None then Some [] else read_text fs7 p)" for p
    by (auto simp: fs8_def read_text_touch path_exists_read_text)
  have r9: "read_text fs9 p = (if p = puzzle_path ?y d \<and> read_text fs8 p = None then Some [] else read_text fs8 p)" for p
    by (auto simp: fs9_def read_text_touch path_exists_read_text)
  have "read_text fs9 p = scaffolded ?y d content fs1 p" for p
  proof -
    consider "p = solution_path ?y d" | "p = test_path ?y d" | "p = conftest_path ?y" | "p = solutions_init ?y" | "p = tests_init ?y" | "p = example_path ?y d" | "p = input_path ?y d" | "p = puzzle_path ?y d"
      | "p \<notin> {solution_path ?y d, test_path ?y d, conftest_path ?y, solutions_init ?y, tests_init ?y, example_path ?y d, input_path ?y d, puzzle_path ?y d}"
      by blast
    then show ?thesis
    proof cases
      case 1
      then show ?thesis
        by (simp add: r9 r8 r7 r6 r5 r4 r3 r2 scaffolded_def path_defs)
    next
      case 2
      then show ?thesis
        by (simp add: r9 r8 r7 r6 r5 r4 r3 r2 scaffolded_def path_defs)
    next
      case 3
      then show ?thesis
        by (simp add: r9 r8 r7 r6 r5 r4 r3 r2 scaffolded_def path_defs)
    next
      case 4
      then show ?thesis
        by (simp add: r9 r8 r7 r6 r5 r4 r3 r2 scaffolded_def path_defs)
    next
      case 5
      then show ?thesis
        by (simp add: r9 r8 r7 r6 r5 r4 r3 r2 scaffolded_def path_defs)
    next
      case 6
      then show ?thesis
        by (simp add: r9 r8 r7 r6 r5 r4 r3 r2 scaffolded_def path_defs)
    next
      case 7
      then show ?thesis
        by (simp add: r9 r8 r7 r6 r5 r4 r3 r2 scaffolded_def path_defs)
    next
      case 8
      then show ?thesis
        by (simp add: r9 r8 r7 r6 r5 r4 r3 r2 scaffolded_def path_defs)
    next
      case 9
      then show ?thesis
        by (simp add: r9 r8 r7 r6 r5 r4 r3 r2 scaffolded_def)
    qed
  qed
  with run show ?thesis by blast
qed

lemma pad2_eq_iff: "pad2 m = pad2 n \<longleftrightarrow> m = n"
  using pad2_inj by blast

lemma download_step_read:
  assumes "download_step e fs d y dl = (fs1, pr)"
    and "dl \<longrightarrow> q \<noteq> input_path y d \<and> q \<noteq> puzzle_path y d"
  shows "read_text fs1 q = read_text fs q"
proof (cases dl)
  case True
  with assms show ?thesis
    by (auto simp: download_step_def dest: try_download_read)
next
  case False
  with assms show ?thesis by (simp add: download_step_def)
qed

lemma scaffold_day_success:
  assumes "scaffold_day e fs d dl = (fs', printed, Inr r)"
    and "load_config e = Inr config"
  shows "\<exists>template content.
           read_template e = Inr template \<and>
           str_format e template (config_year config) d (pad2 d) = Inr content \<and>
           \<not> path_exists fs (solution_path (config_year config) d)"
  using assms
  by (auto simp: scaffold_day_def Let_def split: if_splits sum.splits prod.splits)

lemma scaffold_day_reads:
  assumes run: "scaffold_day e fs d dl = (fs', printed, Inr r)"
    and cfg: "load_config e = Inr config"
  shows "\<exists>content fs1 pr.
           download_step e fs d (config_year config) dl = (fs1, pr) \<and>
           (\<forall>p. read_text fs' p = scaffolded (config_year config) d content fs1 p)"
proof -
  obtain template content where tc: "read_template e = Inr template"
      "str_format e template (config_year config) d (pad2 d) = Inr content"
      "\<not> path_exists fs (solution_path (config_year config) d)"
    using scaffold_day_success[OF run cfg] by blast
  obtain fs1 pr where dl: "download_step e fs d (config_year config) dl = (fs1, pr)"
    by (cases "download_step e fs d (config_year config) dl") auto
  from scaffold_day_fresh[OF cfg tc dl] run dl show ?thesis by auto
qed


subsection \<open>The sample environment\<close>

lemma demo_env_config: "load_config demo_env = Inr [(''year'', 2024)]"
  by (simp add: load_config_def demo_env_def)

lemma demo_config_year: "config_year [(''year'', 2024)] = 2024"
  by (simp add: config_year_def)

lemma demo_env_template: "read_template demo_env = Inr ''# day ''"
  by (simp add: read_template_def demo_env_def)

lemma demo_env_format: "str_format demo_env t y d dp = Inr (t @ dp)"
  by (simp add: demo_env_def)

lemma demo_scaffold:
  assumes "\<not> path_exists fs (solution_path 2024 d)"
  shows "\<exists>fs'. scaffold_day demo_env fs d False =
                 (fs', [], Inr (solution_path 2024 d, test_path 2024 d, example_path 2024 d)) \<and>
               (\<forall>p. read_text fs' p = scaffolded 2024 d (''# day '' @ pad2 d) fs p)"
proof -
  have dl: "download_step demo_env fs d (config_year [(''year'', 2024)]) False = (fs, [])"
    by (simp add: download_step_def)
  have fresh: "\<not> path_exists fs (solution_path (config_year [(''year'', 2024)]) d)"
    using assms by (simp add: demo_config_year)
  show ?thesis
    using scaffold_day_fresh[OF demo_env_config demo_env_template demo_env_format fresh dl]
    by (simp add: demo_config_year)
qed

lemma demo_strings:
  "str_int 2025 = ''2025''" "str_int 2024 = ''2024''" "str_int 1 = ''1''"
  "pad2 1 = ''01''" "pad2 2 = ''02''" "pad2 3 = ''03''"
  by (simp_all add: str_int_def pad2_def str_nat.simps digit_char_def)

section \<open>Loading a solution module\<close>

lemma endswith_self: "endswith p p"
  by (simp add: endswith_def)

lemma endswith_append: "endswith p ys \<Longrightarrow> endswith p (xs @ ys)"
  by (auto simp: endswith_def)

lemma module_path_py: "endswith ''.py'' (module_path year d)"
  unfolding module_path_def
  by (cases year) (simp_all only: option.case endswith_append endswith_self)

lemma spec_of_module_path:
  "spec_from_file_location name (module_path year d) = Some (name, module_path year d)"
  by (simp add: spec_from_file_location_def module_path_py)

lemma module_path_solution_path: "module_path (Some y) d = solution_path y d"
  by (simp add: module_path_def solution_path_def)

section \<open>The batch loop\<close>




section \<open>Paths of different partitions\<close>











section \<open>Scaffolding is create-once\<close>

text \<open>
  C1. In a workspace whose configuration loads and whose template reads and formats,
  \<open>scaffold_day\<close> of a day whose solution file exists raises \<open>FileExistsError\<close> and
  leaves the file system as it was, without printing; of a day whose solution file does
  not exist it returns the solution, test and example paths, the solution file holds the
  formatted template, and a second \<open>scaffold_day\<close> of the same day right after raises
  \<open>FileExistsError\<close> and changes nothing. This holds for every day number, with or
  without download.
\<close>

theorem scaffold_day_create_once:
  assumes cfg: "load_config e = Inr config"
    and tpl: "read_template e = Inr template"
    and fmt: "str_format e template (config_year config) d (pad2 d) = Inr content"
  shows "(path_exists fs (solution_path (config_year config) d) \<longrightarrow>
            scaffold_day e fs d dl =
              (fs, [], Inl (FileExistsError (''Solution for day '' @ str_int d @ '' already exists'')))) \<and>
         (\<not> path_exists fs (solution_path (config_year config) d) \<longrightarrow>
            (\<exists>fs' printed.
               scaffold_day e fs d dl =
                 (fs', printed, Inr (solution_path (config_year config) d,
                                     test_path (config_year config) d,
                                     example_path (config_year config) d)) \<and>
               read_text fs' (solution_path (config_year config) d) = Some content \<and>
               scaffold_day e fs' d dl' =
                 (fs', [], Inl (FileExistsError (''Solution for day '' @ str_int d @ '' already exists'')))))"
proof (intro conjI impI)
  assume "path_exists fs (solution_path (config_year config) d)"
  then show "scaffold_day e fs d dl =
      (fs, [], Inl (FileExistsError (''Solution for day '' @ str_int d @ '' already exists'')))"
    by (simp add: scaffold_day_def cfg)
next
  let ?y = "config_year config"
  assume fresh: "\<not> path_exists fs (solution_path ?y d)"
  obtain fs' printed r where run: "scaffold_day e fs d dl = (fs', printed, r)"
    by (cases "scaffold_day e fs d dl") auto
  have r: "r = Inr (solution_path ?y d, test_path ?y d, example_path ?y d)"
    using run fresh by (auto simp: scaffold_day_def cfg tpl fmt Let_def split: prod.splits)
  have content: "read_text fs' (solution_path ?y d) = Some content"
    using run fresh
    by (auto simp: scaffold_day_def cfg tpl fmt Let_def read_text_write_text read_text_touch
        paths_distinct paths_distinct[symmetric] split: prod.splits)
  then have "path_exists fs' (solution_path ?y d)"
    by (simp add: path_exists_read_text)
  then have "scaffold_day e fs' d dl' =
      (fs', [], Inl (FileExistsError (''Solution for day '' @ str_int d @ '' already exists'')))"
    by (simp add: scaffold_day_def cfg)
  with run r content show "\<exists>fs' printed.
               scaffold_day e fs d dl =
                 (fs', printed, Inr (solution_path (config_year config) d,
                                     test_path (config_year config) d,
                                     example_path (config_year config) d)) \<and>
               read_text fs' (solution_path (config_year config) d) = Some content \<and>
               scaffold_day e fs' d dl' =
                 (fs', [], Inl (FileExistsError (''Solution for day '' @ str_int d @ '' already exists'')))"
    by blast
qed

theorem scaffold_day_create_once_witness:
  "load_config demo_env = Inr [(''year'', 2024)] \<and>
   read_template demo_env = Inr ''# day '' \<and>
   str_format demo_env ''# day '' 2024 7 (pad2 7) = Inr ''# day 07'' \<and>
   \<not> path_exists [] (solution_path 2024 7) \<and>
   (\<exists>fs' printed.
      scaffold_day demo_env [] 7 False =
        (fs', printed, Inr (solution_path 2024 7, test_path 2024 7, example_path 2024 7)) \<and>
      read_text fs' (solution_path 2024 7) = Some ''# day 07'' \<and>
      scaffold_day demo_env fs' 7 False =
        (fs', [], Inl (FileExistsError (''Solution for day '' @ str_int 7 @ '' already exists'')))) \<and>
   path_exists [(solution_path 2024 7, ''mine'')] (solution_path 2024 7) \<and>
   scaffold_day demo_env [(solution_path 2024 7, ''mine'')] 7 True =
     ([(solution_path 2024 7, ''mine'')], [],
      Inl (FileExistsError (''Solution for day '' @ str_int 7 @ '' already exists'')))"
proof -
  have cfg: "load_config demo_env = Inr [(''year'', 2024)]"
    by (simp add: load_config_def demo_env_def)
  have y: "config_year [(''year'', 2024)] = 2024"
    by (simp add: config_year_def)
  have tpl: "read_template demo_env = Inr ''# day ''"
    by (simp add: read_template_def demo_env_def)
  have fmt: "str_format demo_env ''# day '' 2024 7 (pad2 7) = Inr ''# day 07''"
    by (simp add: demo_env_def pad2_def str_nat.simps digit_char_def)
  have fmt': "str_format demo_env ''# day '' (config_year [(''year'', 2024)]) 7 (pad2 7) = Inr ''# day 07''"
    using fmt y by simp
  show ?thesis
    using scaffold_day_create_once[OF cfg tpl fmt', of "[]" False False]
      scaffold_day_create_once[OF cfg tpl fmt', of "[(solution_path 2024 7, ''mine'')]" True]
      cfg tpl fmt
    by (simp add: y path_exists_def)
qed

section \<open>Enumerating the scaffolded days\<close>

lemma collect_days_map_filter:
  "collect_days files days = days @ List.map_filter day_of_name files"
  by (induction files arbitrary: days)
     (simp_all add: List.map_filter_simps day_of_name_def split: option.splits)

lemma stem_day_py: "stem (''day'' @ x @ ''.py'') = ''day'' @ x"
  by (simp add: stem_def Let_def)

lemma str_remove_absent: "CHR ''d'' \<notin> set s \<Longrightarrow> str_remove ''day'' s = s"
proof (induction s)
  case Nil
  then show ?case by (simp add: str_remove.simps)
next
  case (Cons c s)
  then have "\<not> startswith ''day'' (c # s)" by (auto simp: startswith_def)
  with Cons show ?case by (simp add: str_remove.simps[of _ "c # s"])
qed

lemma pad2_no_d: "CHR ''d'' \<notin> set (pad2 n)"
proof
  assume "CHR ''d'' \<in> set (pad2 n)"
  then have "is_digit CHR ''d'' \<or> CHR ''d'' = CHR ''-''" by (rule pad2_chars)
  then show False by (simp add: is_digit_def digit_val_def)
qed

lemma pad2_no_slash: "CHR ''/'' \<notin> set (pad2 n)"
proof
  assume "CHR ''/'' \<in> set (pad2 n)"
  then have "is_digit CHR ''/'' \<or> CHR ''/'' = CHR ''-''" by (rule pad2_chars)
  then show False by (simp add: is_digit_def digit_val_def)
qed

lemma day_of_name_canonical: "day_of_name (''day'' @ pad2 n @ ''.py'') = Some n"
proof -
  have "str_remove ''day'' (''day'' @ pad2 n) = str_remove ''day'' (pad2 n)"
    by (subst str_remove.simps) (simp add: startswith_def)
  then have r: "str_remove ''day'' (''day'' @ pad2 n) = pad2 n"
    by (simp only: str_remove_absent[OF pad2_no_d])
  show ?thesis
    unfolding day_of_name_def stem_day_py r by (rule py_int_pad2)
qed

lemma path_exists_iff: "path_exists fs p \<longleftrightarrow> p \<in> set (map fst fs)"
  by (simp add: path_exists_def map_of_eq_None_iff)

lemma listdir_iff:
  "name \<in> set (listdir fs d) \<longleftrightarrow>
     name \<noteq> [] \<and> CHR ''/'' \<notin> set name \<and> path_exists fs (d @ ''/'' @ name)"
proof
  assume "name \<in> set (listdir fs d)"
  then obtain p where p: "p \<in> set (map fst fs)" "startswith (d @ ''/'') p"
      "name = drop (length d + 1) p" "name \<noteq> []" "CHR ''/'' \<notin> set name"
    by (auto simp: listdir_def)
  from p(2) have t: "take (length d + 1) p = d @ ''/''" by (simp add: startswith_def)
  have "take (length d + 1) p @ drop (length d + 1) p = p" by (rule append_take_drop_id)
  then have "(d @ ''/'') @ name = p" by (simp only: t p(3))
  then have "d @ ''/'' @ name = p" by simp
  then have "d @ ''/'' @ name \<in> set (map fst fs)" using p(1) by (simp only:)
  then have "path_exists fs (d @ ''/'' @ name)" by (simp only: path_exists_iff)
  with p(4,5) show "name \<noteq> [] \<and> CHR ''/'' \<notin> set name \<and> path_exists fs (d @ ''/'' @ name)"
    by blast
next
  assume a: "name \<noteq> [] \<and> CHR ''/'' \<notin> set name \<and> path_exists fs (d @ ''/'' @ name)"
  then have "d @ ''/'' @ name \<in> set (map fst fs)" by (simp add: path_exists_iff)
  moreover have "startswith (d @ ''/'') (d @ ''/'' @ name)" by (simp add: startswith_def)
  moreover have "drop (length d + 1) (d @ ''/'' @ name) = name" by simp
  ultimately show "name \<in> set (listdir fs d)"
    using a unfolding listdir_def by force
qed

lemma listdir_distinct:
  assumes "distinct (map fst fs)"
  shows "distinct (listdir fs d)"
proof -
  let ?k = "length d + 1"
  let ?P = "\<lambda>p. startswith (d @ ''/'') p \<and> drop ?k p \<noteq> [] \<and> CHR ''/'' \<notin> set (drop ?k p)"
  have eq: "listdir fs d = map (drop ?k) (filter ?P (map fst fs))"
    unfolding listdir_def by (induction fs) auto
  have "inj_on (drop ?k) (set (filter ?P (map fst fs)))"
  proof (rule inj_onI)
    fix p q
    assume "p \<in> set (filter ?P (map fst fs))" "q \<in> set (filter ?P (map fst fs))"
      and dq: "drop ?k p = drop ?k q"
    then have "take ?k p = take ?k q" by (simp add: startswith_def)
    with dq show "p = q" by (metis append_take_drop_id)
  qed
  then show ?thesis
    unfolding eq using assms by (simp add: distinct_map)
qed

lemma glob_day_py_canonical:
  "''day'' @ pad2 n @ ''.py'' \<in> set (glob_day_py fs d) \<longleftrightarrow>
     path_exists fs (d @ ''/day'' @ pad2 n @ ''.py'')"
  using pad2_length[of n]
  by (simp add: glob_day_py_def listdir_iff startswith_def endswith_def pad2_no_slash)

lemma module_path_solutions_dir:
  "module_path year d = get_solutions_dir year @ ''/day'' @ pad2 d @ ''.py''"
  by (simp add: module_path_def get_solutions_dir_def split: option.splits)

lemma get_available_days_eq:
  "get_available_days fs year =
     sort (List.map_filter day_of_name (glob_day_py fs (get_solutions_dir year)))"
  by (simp add: get_available_days_def get_solutions_dir_def collect_days_map_filter
      split: option.splits)

lemma set_map_filter_Some:
  "set (List.map_filter f xs) = {y. \<exists>x \<in> set xs. f x = Some y}"
  by (induction xs) (auto simp: List.map_filter_simps split: option.splits)

lemma glob_day_py_distinct: "distinct (map fst fs) \<Longrightarrow> distinct (glob_day_py fs d)"
  by (simp add: glob_day_py_def listdir_distinct)

lemma canonical_namesD:
  "canonical_names fs d \<Longrightarrow> name \<in> set (glob_day_py fs d) \<Longrightarrow> day_of_name name = Some n \<Longrightarrow>
     name = ''day'' @ pad2 n @ ''.py''"
  unfolding canonical_names_def by (auto split: option.splits)

text \<open>
  C3 (as amended). For a file system that lists each path once, \<open>get_available_days\<close>
  returns an ascending list holding exactly the numbers that \<open>int\<close> reads from the day
  portion of the files matching \<open>day*.py\<close> in the solutions directory, the names whose
  day portion does not parse being skipped. When every matching file whose day portion
  parses has the name the scaffold gives to that day (\<open>day\<close>, the two-digit day,
  \<open>.py\<close>), the list has no duplicates and its elements are exactly the days whose
  solution file exists.
\<close>

theorem get_available_days_listing:
  assumes "distinct (map fst fs)"
  shows "sorted (get_available_days fs year) \<and>
         set (get_available_days fs year) =
           {n. \<exists>name \<in> set (glob_day_py fs (get_solutions_dir year)). day_of_name name = Some n} \<and>
         (canonical_names fs (get_solutions_dir year) \<longrightarrow>
            distinct (get_available_days fs year) \<and>
            set (get_available_days fs year) = {d. path_exists fs (module_path year d)})"
proof (intro conjI impI)
  let ?dir = "get_solutions_dir year"
  let ?names = "glob_day_py fs ?dir"
  show "sorted (get_available_days fs year)"
    by (simp add: get_available_days_eq)
  show parsed: "set (get_available_days fs year) =
      {n. \<exists>name \<in> set ?names. day_of_name name = Some n}"
    by (simp add: get_available_days_eq set_map_filter_Some)
  assume canon: "canonical_names fs ?dir"
  have "inj_on (the \<circ> day_of_name) (set (filter (\<lambda>x. day_of_name x \<noteq> None) ?names))"
  proof (rule inj_onI)
    fix a b
    assume a: "a \<in> set (filter (\<lambda>x. day_of_name x \<noteq> None) ?names)"
      and b: "b \<in> set (filter (\<lambda>x. day_of_name x \<noteq> None) ?names)"
      and eq: "(the \<circ> day_of_name) a = (the \<circ> day_of_name) b"
    from a obtain n where n: "a \<in> set ?names" "day_of_name a = Some n" by auto
    from b obtain m where m: "b \<in> set ?names" "day_of_name b = Some m" by auto
    from eq n m have "n = m" by simp
    with canonical_namesD[OF canon n] canonical_namesD[OF canon m] show "a = b" by simp
  qed
  then have "distinct (List.map_filter day_of_name ?names)"
    using glob_day_py_distinct[OF assms, of ?dir]
    by (simp add: List.map_filter_def distinct_map)
  then show "distinct (get_available_days fs year)"
    by (simp add: get_available_days_eq)
  show "set (get_available_days fs year) = {d. path_exists fs (module_path year d)}"
  proof (intro set_eqI iffI)
    fix n
    assume "n \<in> set (get_available_days fs year)"
    then obtain name where nm: "name \<in> set ?names" "day_of_name name = Some n"
      unfolding parsed by blast
    then have "''day'' @ pad2 n @ ''.py'' \<in> set ?names"
      using canonical_namesD[OF canon nm] by simp
    then show "n \<in> {d. path_exists fs (module_path year d)}"
      by (simp only: glob_day_py_canonical module_path_solutions_dir mem_Collect_eq)
  next
    fix n
    assume "n \<in> {d. path_exists fs (module_path year d)}"
    then have "''day'' @ pad2 n @ ''.py'' \<in> set ?names"
      by (simp only: glob_day_py_canonical module_path_solutions_dir mem_Collect_eq)
    then show "n \<in> set (get_available_days fs year)"
      unfolding parsed using day_of_name_canonical[of n] by blast
  qed
qed

theorem get_available_days_listing_witness:
  "distinct (map fst demo_solutions) \<and>
   canonical_names demo_solutions (get_solutions_dir (Some 2025)) \<and>
   get_available_days demo_solutions (Some 2025) = [1, 3] \<and>
   sorted (get_available_days demo_solutions (Some 2025)) \<and>
   distinct (get_available_days demo_solutions (Some 2025)) \<and>
   set (get_available_days demo_solutions (Some 2025)) =
     {d. path_exists demo_solutions (module_path (Some 2025) d)}"
proof -
  have d: "distinct (map fst demo_solutions)"
    by code_simp
  have c: "canonical_names demo_solutions (get_solutions_dir (Some 2025))"
    by code_simp
  have v: "get_available_days demo_solutions (Some 2025) = [1, 3]"
    by code_simp
  show ?thesis
    using get_available_days_listing[OF d, of "Some 2025"] c d v by blast
qed

text \<open>
  C3 as stated fails: beside \<open>day01.py\<close>, a file \<open>day1.py\<close> is read as day 1 too.
\<close>

theorem get_available_days_duplicates:
  "distinct (map fst stray_solutions) \<and>
   get_available_days stray_solutions (Some 2025) = [1, 1] \<and>
   \<not> distinct (get_available_days stray_solutions (Some 2025))"
  by code_simp

section \<open>A scaffold leaves the existing shared and data files alone\<close>

text \<open>
  C9. After a successful \<open>scaffold_day\<close> the partition's \<open>conftest.py\<close> and the day's
  example file hold what they held before when they existed, and the fixture text and
  the empty text when they did not; the day's input and puzzle files hold what the
  download step left, or the empty text when it left no file (without download the
  step leaves the file system as it was). A later successful \<open>scaffold_day\<close> of another
  day, with or without download, leaves \<open>conftest.py\<close> and the example, input and
  puzzle files of the first day with the same contents.
\<close>

theorem scaffold_day_keeps_existing:
  assumes first: "scaffold_day e fs d dl = (fs', printed, Inr r)"
    and cfg: "load_config e = Inr config"
  shows "read_text fs' (conftest_path (config_year config)) =
           (case read_text fs (conftest_path (config_year config)) of
              None \<Rightarrow> Some conftest_content | Some text \<Rightarrow> Some text) \<and>
         read_text fs' (example_path (config_year config) d) =
           (case read_text fs (example_path (config_year config) d) of
              None \<Rightarrow> Some [] | Some text \<Rightarrow> Some text) \<and>
         read_text fs' (input_path (config_year config) d) =
           (case read_text (fst (download_step e fs d (config_year config) dl))
                   (input_path (config_year config) d) of
              None \<Rightarrow> Some [] | Some text \<Rightarrow> Some text) \<and>
         read_text fs' (puzzle_path (config_year config) d) =
           (case read_text (fst (download_step e fs d (config_year config) dl))
                   (puzzle_path (config_year config) d) of
              None \<Rightarrow> Some [] | Some text \<Rightarrow> Some text) \<and>
         (\<forall>d' dl' fs'' printed' r'.
            d' \<noteq> d \<longrightarrow> scaffold_day e fs' d' dl' = (fs'', printed', Inr r') \<longrightarrow>
              read_text fs'' (conftest_path (config_year config)) =
                read_text fs' (conftest_path (config_year config)) \<and>
              read_text fs'' (example_path (config_year config) d) =
                read_text fs' (example_path (config_year config) d) \<and>
              read_text fs'' (input_path (config_year config) d) =
                read_text fs' (input_path (config_year config) d) \<and>
              read_text fs'' (puzzle_path (config_year config) d) =
                read_text fs' (puzzle_path (config_year config) d))"
proof -
  let ?y = "config_year config"
  obtain content fs1 pr where dl: "download_step e fs d ?y dl = (fs1, pr)"
    and rd: "\<And>p. read_text fs' p = scaffolded ?y d content fs1 p"
    using scaffold_day_reads[OF first cfg] by blast
  have c1: "read_text fs1 (conftest_path ?y) = read_text fs (conftest_path ?y)"
    by (rule download_step_read[OF dl]) (simp add: path_defs)
  have e1: "read_text fs1 (example_path ?y d) = read_text fs (example_path ?y d)"
    by (rule download_step_read[OF dl]) (simp add: path_defs)
  have conftest: "read_text fs' (conftest_path ?y) =
      (case read_text fs (conftest_path ?y) of None \<Rightarrow> Some conftest_content | Some text \<Rightarrow> Some text)"
    unfolding rd c1[symmetric] by (simp add: scaffolded_def path_defs split: option.splits)
  have example: "read_text fs' (example_path ?y d) =
      (case read_text fs (example_path ?y d) of None \<Rightarrow> Some [] | Some text \<Rightarrow> Some text)"
    unfolding rd e1[symmetric] by (simp add: scaffolded_def path_defs split: option.splits)
  have input: "read_text fs' (input_path ?y d) =
      (case read_text fs1 (input_path ?y d) of None \<Rightarrow> Some [] | Some text \<Rightarrow> Some text)"
    unfolding rd by (simp add: scaffolded_def path_defs split: option.splits)
  have puzzle: "read_text fs' (puzzle_path ?y d) =
      (case read_text fs1 (puzzle_path ?y d) of None \<Rightarrow> Some [] | Some text \<Rightarrow> Some text)"
    unfolding rd by (simp add: scaffolded_def path_defs split: option.splits)
  have later: "read_text fs'' (conftest_path ?y) = read_text fs' (conftest_path ?y) \<and>
      read_text fs'' (example_path ?y d) = read_text fs' (example_path ?y d) \<and>
      read_text fs'' (input_path ?y d) = read_text fs' (input_path ?y d) \<and>
      read_text fs'' (puzzle_path ?y d) = read_text fs' (puzzle_path ?y d)"
    if neq: "d' \<noteq> d" and second: "scaffold_day e fs' d' dl' = (fs'', printed', Inr r')"
    for d' dl' fs'' printed' r'
  proof -
    obtain content' fs1' pr' where dl': "download_step e fs' d' ?y dl' = (fs1', pr')"
      and rd': "\<And>p. read_text fs'' p = scaffolded ?y d' content' fs1' p"
      using scaffold_day_reads[OF second cfg] by blast
    have k1: "read_text fs1' (conftest_path ?y) = read_text fs' (conftest_path ?y)"
      by (rule download_step_read[OF dl']) (simp add: path_defs)
    have k2: "read_text fs1' (example_path ?y d) = read_text fs' (example_path ?y d)"
      by (rule download_step_read[OF dl']) (simp add: path_defs)
    have k3: "read_text fs1' (input_path ?y d) = read_text fs' (input_path ?y d)"
      by (rule download_step_read[OF dl']) (simp add: path_defs pad2_eq_iff neq[symmetric])
    have k4: "read_text fs1' (puzzle_path ?y d) = read_text fs' (puzzle_path ?y d)"
      by (rule download_step_read[OF dl']) (simp add: path_defs pad2_eq_iff neq[symmetric])
    have "read_text fs' (conftest_path ?y) \<noteq> None"
      unfolding conftest by (simp split: option.splits)
    then have "read_text fs'' (conftest_path ?y) = read_text fs' (conftest_path ?y)"
      unfolding rd' k1[symmetric] by (simp add: scaffolded_def path_defs)
    moreover have "read_text fs'' (example_path ?y d) = read_text fs' (example_path ?y d)"
      unfolding rd' k2[symmetric] using neq
      by (simp add: scaffolded_def path_defs pad2_eq_iff)
    moreover have "read_text fs'' (input_path ?y d) = read_text fs' (input_path ?y d)"
      unfolding rd' k3[symmetric] using neq
      by (simp add: scaffolded_def path_defs pad2_eq_iff)
    moreover have "read_text fs'' (puzzle_path ?y d) = read_text fs' (puzzle_path ?y d)"
      unfolding rd' k4[symmetric] using neq
      by (simp add: scaffolded_def path_defs pad2_eq_iff)
    ultimately show ?thesis by blast
  qed
  from dl have "fst (download_step e fs d ?y dl) = fs1" by simp
  with conftest example input puzzle later show ?thesis
    by (simp only:) blast
qed

theorem scaffold_day_keeps_existing_witness:
  "\<exists>fs' fs''.
     scaffold_day demo_env [(conftest_path 2024, ''# mine'')] 7 False =
       (fs', [], Inr (solution_path 2024 7, test_path 2024 7, example_path 2024 7)) \<and>
     load_config demo_env = Inr [(''year'', 2024)] \<and>
     (8::int) \<noteq> 7 \<and>
     scaffold_day demo_env fs' 8 False =
       (fs'', [], Inr (solution_path 2024 8, test_path 2024 8, example_path 2024 8)) \<and>
     read_text fs' (conftest_path 2024) = Some ''# mine'' \<and>
     read_text fs' (example_path 2024 7) = Some [] \<and>
     read_text fs' (input_path 2024 7) = Some [] \<and>
     read_text fs' (puzzle_path 2024 7) = Some [] \<and>
     read_text fs'' (conftest_path 2024) = Some ''# mine'' \<and>
     read_text fs'' (example_path 2024 7) = Some [] \<and>
     read_text fs'' (input_path 2024 7) = Some [] \<and>
     read_text fs'' (puzzle_path 2024 7) = Some []"
proof -
  let ?fs = "[(conftest_path 2024, ''# mine'')]"
  have rd0: "read_text ?fs p = (if p = conftest_path 2024 then Some ''# mine'' else None)" for p
    by (simp add: read_text_def)
  have "\<not> path_exists ?fs (solution_path 2024 7)"
    unfolding path_exists_read_text rd0 by (simp add: path_defs)
  then obtain fs' where run1: "scaffold_day demo_env ?fs 7 False =
      (fs', [], Inr (solution_path 2024 7, test_path 2024 7, example_path 2024 7))"
    and rd1: "\<And>p. read_text fs' p = scaffolded 2024 7 (''# day '' @ pad2 7) ?fs p"
    using demo_scaffold[of ?fs 7] by blast
  have "\<not> path_exists fs' (solution_path 2024 8)"
    unfolding path_exists_read_text rd1 scaffolded_def rd0
    by (simp add: path_defs pad2_eq_iff)
  then obtain fs'' where run2: "scaffold_day demo_env fs' 8 False =
      (fs'', [], Inr (solution_path 2024 8, test_path 2024 8, example_path 2024 8))"
    using demo_scaffold[of fs' 8] by blast
  have dl: "fst (download_step demo_env ?fs 7 2024 False) = ?fs"
    by (simp add: download_step_def)
  have none: "read_text ?fs (example_path 2024 7) = None" "read_text ?fs (input_path 2024 7) = None"
    "read_text ?fs (puzzle_path 2024 7) = None" "read_text ?fs (conftest_path 2024) = Some ''# mine''"
    unfolding rd0 by (simp_all add: path_defs)
  have neq: "(8::int) \<noteq> 7" by simp
  show ?thesis
    using scaffold_day_keeps_existing[OF run1 demo_env_config] run1 run2 demo_env_config neq
    unfolding demo_config_year dl none
    by (intro exI[of _ fs'] exI[of _ fs'']) (simp only: option.case simp_thms)
qed

section \<open>A failed download does not stop the scaffold\<close>



section \<open>Placeholders after a scaffold without download\<close>

text \<open>
  C10 (as amended). After a successful \<open>scaffold_day\<close> without download, the day's
  input and puzzle files exist: each is empty if it did not exist before and holds its
  earlier text otherwise. So \<open>read_input\<close> and \<open>read_puzzle\<close> for that day and year
  return that text (the empty text for a file the scaffold created) instead of raising
  \<open>FileNotFoundError\<close>, and \<open>run_day\<close>, once the scaffolded module loads, goes on to
  \<open>parse_input\<close> with it.
\<close>

theorem scaffold_day_empty_placeholders:
  assumes run: "scaffold_day e fs d False = (fs', printed, Inr r)"
    and cfg: "load_config e = Inr config"
  shows "read_input fs' d (Some (config_year config)) =
           Inr (case read_text fs (input_path (config_year config) d) of
                  None \<Rightarrow> [] | Some text \<Rightarrow> text) \<and>
         read_puzzle fs' d (Some (config_year config)) =
           Inr (case read_text fs (puzzle_path (config_year config) d) of
                  None \<Rightarrow> [] | Some text \<Rightarrow> text) \<and>
         (\<forall>ex module.
            load_spec ex fs' (''day'' @ pad2 d, module_path (Some (config_year config)) d) = Inr module \<longrightarrow>
            run_day ex fs' d (Some (config_year config)) =
              run_solution (''day'' @ pad2 d) d module
                (case read_text fs (input_path (config_year config) d) of
                   None \<Rightarrow> [] | Some text \<Rightarrow> text))"
proof -
  let ?y = "config_year config"
  let ?input = "case read_text fs (input_path ?y d) of None \<Rightarrow> [] | Some text \<Rightarrow> text"
  let ?puzzle = "case read_text fs (puzzle_path ?y d) of None \<Rightarrow> [] | Some text \<Rightarrow> text"
  obtain content fs1 pr where dl: "download_step e fs d ?y False = (fs1, pr)"
    and rd: "\<And>p. read_text fs' p = scaffolded ?y d content fs1 p"
    using scaffold_day_reads[OF run cfg] by blast
  from dl have fs1: "fs1 = fs" by (simp add: download_step_def)
  have input: "read_text fs' (input_path ?y d) = Some ?input"
    unfolding rd fs1 scaffolded_def
    by (simp add: path_defs split: option.splits)
  have puzzle: "read_text fs' (puzzle_path ?y d) = Some ?puzzle"
    unfolding rd fs1 scaffolded_def
    by (simp add: path_defs split: option.splits)
  have ri: "read_input fs' d (Some ?y) = Inr ?input"
    using input by (simp add: read_input_def get_aoc_data_dir_def input_path_def)
  have rp: "read_puzzle fs' d (Some ?y) = Inr ?puzzle"
    using puzzle by (simp add: read_puzzle_def get_aoc_data_dir_def puzzle_path_def)
  have sol: "path_exists fs' (module_path (Some ?y) d)"
    unfolding path_exists_read_text rd scaffolded_def
    by (simp add: module_path_def path_defs)
  have "run_day ex fs' d (Some ?y) = run_solution (''day'' @ pad2 d) d module ?input"
    if "load_spec ex fs' (''day'' @ pad2 d, module_path (Some ?y) d) = Inr module" for ex module
    using that sol ri by (simp add: run_day_def spec_of_module_path Let_def)
  with ri rp show ?thesis by blast
qed

theorem scaffold_day_empty_placeholders_witness:
  "\<exists>fs'.
     scaffold_day demo_env [] 7 False =
       (fs', [], Inr (solution_path 2024 7, test_path 2024 7, example_path 2024 7)) \<and>
     load_config demo_env = Inr [(''year'', 2024)] \<and>
     load_spec demo_exec fs' (''day'' @ pad2 7, module_path (Some 2024) 7) = Inr demo_module \<and>
     read_input fs' 7 (Some 2024) = Inr [] \<and>
     read_puzzle fs' 7 (Some 2024) = Inr [] \<and>
     run_day demo_exec fs' 7 (Some 2024) =
       ([Out (''Day '' @ pad2 7), Out (replicate 40 CHR ''-''), Part_line 1 0 3, Part_line 2 1 4], 0)"
proof -
  have fresh: "\<not> path_exists [] (solution_path 2024 7)"
    by (simp add: path_exists_def)
  obtain fs' where run: "scaffold_day demo_env [] 7 False =
      (fs', [], Inr (solution_path 2024 7, test_path 2024 7, example_path 2024 7))"
    and rd: "\<And>p. read_text fs' p = scaffolded 2024 7 (''# day '' @ pad2 7) [] p"
    using demo_scaffold[OF fresh] by blast
  have absent: "read_text [] p = None" for p
    by (simp add: read_text_def)
  have "read_text fs' (module_path (Some 2024) 7) = Some (''# day '' @ pad2 7)"
    unfolding rd module_path_solution_path scaffolded_def by simp
  then have load: "load_spec demo_exec fs' (''day'' @ pad2 7, module_path (Some 2024) 7) = Inr demo_module"
    by (simp add: load_spec_def demo_exec_def)
  have sol: "run_solution (''day'' @ pad2 7) 7 demo_module [] =
      ([Out (''Day '' @ pad2 7), Out (replicate 40 CHR ''-''), Part_line 1 0 3, Part_line 2 1 4], 0)"
    by (simp add: run_solution_def demo_module_def)
  note t = scaffold_day_empty_placeholders[OF run demo_env_config,
      unfolded demo_config_year absent option.case]
  from t load have r1: "run_day demo_exec fs' 7 (Some 2024) =
      run_solution (''day'' @ pad2 7) 7 demo_module []"
    by blast
  have r2: "run_day demo_exec fs' 7 (Some 2024) =
      ([Out (''Day '' @ pad2 7), Out (replicate 40 CHR ''-''), Part_line 1 0 3, Part_line 2 1 4], 0)"
    unfolding r1 by (rule sol)
  from t have ri: "read_input fs' 7 (Some 2024) = Inr []"
    and rp: "read_puzzle fs' 7 (Some 2024) = Inr []"
    by blast+
  from run demo_env_config load ri rp r2 show ?thesis
    by blast
qed

text \<open>
  C10 as stated fails: an input file that is there before the scaffold keeps its text.
\<close>

theorem scaffold_day_keeps_input:
  "input_path 2024 7 = ''2024/data/inputs/07.txt'' \<and>
   snd (snd (scaffold_day demo_env [(''2024/data/inputs/07.txt'', ''1 2 3'')] 7 False)) =
     Inr (solution_path 2024 7, test_path 2024 7, example_path 2024 7) \<and>
   read_text (fst (scaffold_day demo_env [(''2024/data/inputs/07.txt'', ''1 2 3'')] 7 False))
     ''2024/data/inputs/07.txt'' = Some ''1 2 3'' \<and>
   read_input (fst (scaffold_day demo_env [(''2024/data/inputs/07.txt'', ''1 2 3'')] 7 False))
     7 (Some 2024) = Inr ''1 2 3''"
proof -
  let ?fs = "[(''2024/data/inputs/07.txt'', ''1 2 3'')]"
  have ip: "input_path 2024 7 = ''2024/data/inputs/07.txt''"
    by (simp add: input_path_def str_int_def pad2_def str_nat.simps digit_char_def)
  have rd0: "read_text ?fs p = (if p = input_path 2024 7 then Some ''1 2 3'' else None)" for p
    unfolding ip by (simp add: read_text_def)
  have "\<not> path_exists ?fs (solution_path 2024 7)"
    unfolding path_exists_read_text rd0 by (simp add: path_defs)
  then obtain fs' where run: "scaffold_day demo_env ?fs 7 False =
      (fs', [], Inr (solution_path 2024 7, test_path 2024 7, example_path 2024 7))"
    and rd: "\<And>p. read_text fs' p = scaffolded 2024 7 (''# day '' @ pad2 7) ?fs p"
    using demo_scaffold[of ?fs 7] by blast
  have inp: "read_text fs' (input_path 2024 7) = Some ''1 2 3''"
    unfolding rd scaffolded_def rd0 by (simp add: path_defs)
  then have "read_input fs' 7 (Some 2024) = Inr ''1 2 3''"
    by (simp add: read_input_def get_aoc_data_dir_def input_path_def)
  with inp run ip show ?thesis by simp
qed

section \<open>Batch mode isolates the failure of a day\<close>



section \<open>Loading does not validate the module\<close>

text \<open>
  C4 (as amended). \<open>run_day\<close> reports that the solution is not found, with exit
  status 1, when the solution file is absent. A loaded module is not checked for the
  three callables. When the input file is missing the run reports the missing input
  (exit status 1), whatever the module lacks. When the input is read, the run fails in
  the general handler, exit status 1, with the attribute error of the first call to a
  missing callable: at once for \<open>parse_input\<close>; after \<open>parse_input\<close> has returned
  and the day's header is printed for \<open>part_one\<close>; after \<open>part_one\<close> has returned
  too for \<open>part_two\<close>.
\<close>

theorem run_day_no_eager_validation:
  "(\<not> path_exists fs (module_path year day) \<longrightarrow>
      run_day ex fs day year =
        ([Err (cross_mark @ '' Error: Solution for day '' @ str_int day @ '' not found'')], 1)) \<and>
   (path_exists fs (module_path year day) \<and>
    load_spec ex fs (''day'' @ pad2 day, module_path year day) = Inr module \<longrightarrow>
      (read_input fs day year = Inl (FileNotFoundError m) \<longrightarrow>
         run_day ex fs day year =
           ([Err (cross_mark @ '' Error: Input file not found for day '' @ str_int day)], 1)) \<and>
      (read_input fs day year = Inr input_text \<longrightarrow>
         (parse_input module = None \<longrightarrow>
            run_day ex fs day year =
              ([Err (cross_mark @ '' Error running day '' @ str_int day @ '': '' @
                     exc_str (no_attribute (''day'' @ pad2 day) ''parse_input''))], 1)) \<and>
         (parse_input module = Some parse \<and> parse input_text = Inr data \<longrightarrow>
            (part_one module = None \<longrightarrow>
               run_day ex fs day year =
                 ([Out (''Day '' @ pad2 day), Out (replicate 40 CHR ''-''),
                   Err (cross_mark @ '' Error running day '' @ str_int day @ '': '' @
                        exc_str (no_attribute (''day'' @ pad2 day) ''part_one''))], 1)) \<and>
            (part_one module = Some one \<and> one data = Inr (result1, time1) \<and>
             part_two module = None \<longrightarrow>
               run_day ex fs day year =
                 ([Out (''Day '' @ pad2 day), Out (replicate 40 CHR ''-''),
                   Err (cross_mark @ '' Error running day '' @ str_int day @ '': '' @
                        exc_str (no_attribute (''day'' @ pad2 day) ''part_two''))], 1)))))"
  by (simp add: run_day_def spec_of_module_path Let_def run_solution_def run_day_failed_def)

theorem run_day_no_eager_validation_witness:
  "\<not> path_exists [] (module_path (Some 2025) 1) \<and>
   run_day demo_exec [] 1 (Some 2025) =
     ([Err (cross_mark @ '' Error: Solution for day '' @ str_int 1 @ '' not found'')], 1) \<and>
   path_exists demo_incomplete (module_path (Some 2025) 1) \<and>
   load_spec demo_exec demo_incomplete (''day'' @ pad2 1, module_path (Some 2025) 1) =
     Inr (demo_module\<lparr>part_two := None\<rparr>) \<and>
   read_input demo_incomplete 1 (Some 2025) = Inr ''abc'' \<and>
   run_day demo_exec demo_incomplete 1 (Some 2025) =
     ([Out (''Day '' @ pad2 1), Out (replicate 40 CHR ''-''),
       Err (cross_mark @ '' Error running day '' @ str_int 1 @ '': '' @
            exc_str (no_attribute (''day'' @ pad2 1) ''part_two''))], 1) \<and>
   run_day (\<lambda>name location source. Inr (demo_module\<lparr>part_one := None\<rparr>)) demo_incomplete 1 (Some 2025) =
     ([Out (''Day '' @ pad2 1), Out (replicate 40 CHR ''-''),
       Err (cross_mark @ '' Error running day '' @ str_int 1 @ '': '' @
            exc_str (no_attribute (''day'' @ pad2 1) ''part_one''))], 1) \<and>
   run_day (\<lambda>name location source. Inr (demo_module\<lparr>parse_input := None\<rparr>)) demo_incomplete 1 (Some 2025) =
     ([Err (cross_mark @ '' Error running day '' @ str_int 1 @ '': '' @
            exc_str (no_attribute (''day'' @ pad2 1) ''parse_input''))], 1) \<and>
   path_exists demo_incomplete_no_input (module_path (Some 2025) 1) \<and>
   (\<exists>m. read_input demo_incomplete_no_input 1 (Some 2025) = Inl (FileNotFoundError m)) \<and>
   run_day demo_exec demo_incomplete_no_input 1 (Some 2025) =
     ([Err (cross_mark @ '' Error: Input file not found for day '' @ str_int 1)], 1)"
proof -
  let ?no_two = "demo_module\<lparr>part_two := None\<rparr>"
  let ?no_one = "demo_module\<lparr>part_one := None\<rparr>"
  let ?no_parse = "demo_module\<lparr>parse_input := None\<rparr>"
  let ?exec_one = "(\<lambda>name location source. Inr ?no_one) :: (nat, nat, nat) interpreter"
  let ?exec_parse = "(\<lambda>name location source. Inr ?no_parse) :: (nat, nat, nat) interpreter"
  have a: "\<not> path_exists [] (module_path (Some 2025) 1)"
    by (simp add: path_exists_def)
  have mp: "module_path (Some 2025) 1 = ''2025/solutions/day01.py''"
    by (simp add: module_path_def demo_strings)
  have e1: "path_exists demo_incomplete (module_path (Some 2025) 1)"
    and e2: "path_exists demo_incomplete_no_input (module_path (Some 2025) 1)"
    by (simp_all add: mp path_exists_def demo_incomplete_def demo_incomplete_no_input_def)
  have l1: "load_spec demo_exec demo_incomplete (''day'' @ pad2 1, module_path (Some 2025) 1) = Inr ?no_two"
    and l2: "load_spec demo_exec demo_incomplete_no_input (''day'' @ pad2 1, module_path (Some 2025) 1) = Inr ?no_two"
    and l3: "load_spec ?exec_one demo_incomplete (''day'' @ pad2 1, module_path (Some 2025) 1) = Inr ?no_one"
    and l4: "load_spec ?exec_parse demo_incomplete (''day'' @ pad2 1, module_path (Some 2025) 1) = Inr ?no_parse"
    by (simp_all add: mp load_spec_def read_text_def demo_incomplete_def demo_incomplete_no_input_def
        demo_exec_def)
  have i1: "read_input demo_incomplete 1 (Some 2025) = Inr ''abc''"
    by (simp add: read_input_def get_aoc_data_dir_def demo_strings read_text_def demo_incomplete_def)
  obtain msg where i2: "read_input demo_incomplete_no_input 1 (Some 2025) = Inl (FileNotFoundError msg)"
    by (simp add: read_input_def get_aoc_data_dir_def demo_strings read_text_def
        demo_incomplete_no_input_def)
  have pi: "parse_input ?no_two = Some (\<lambda>text. Inr (length text))"
    "parse_input ?no_one = Some (\<lambda>text. Inr (length text))" "parse_input ?no_parse = None"
    and po: "part_one ?no_two = Some (\<lambda>n. Inr (n, 3))" "part_one ?no_one = None"
    and pt: "part_two ?no_two = None"
    by (simp_all add: demo_module_def)
  note t0 = run_day_no_eager_validation[of "[]" "Some 2025" 1 demo_exec]
  note t1 = run_day_no_eager_validation[of demo_incomplete "Some 2025" 1 demo_exec ?no_two _ "''abc''"
      "\<lambda>text. Inr (length text)" 3 "\<lambda>n. Inr (n, 3)" 3 3]
  note t2 = run_day_no_eager_validation[of demo_incomplete_no_input "Some 2025" 1 demo_exec ?no_two msg]
  note t3 = run_day_no_eager_validation[of demo_incomplete "Some 2025" 1 ?exec_one ?no_one _ "''abc''"
      "\<lambda>text. Inr (length text)" 3]
  note t4 = run_day_no_eager_validation[of demo_incomplete "Some 2025" 1 ?exec_parse ?no_parse _ "''abc''"]
  have r0: "run_day demo_exec [] 1 (Some 2025) =
     ([Err (cross_mark @ '' Error: Solution for day '' @ str_int 1 @ '' not found'')], 1)"
    using t0 a by blast
  have r1: "run_day demo_exec demo_incomplete 1 (Some 2025) =
     ([Out (''Day '' @ pad2 1), Out (replicate 40 CHR ''-''),
       Err (cross_mark @ '' Error running day '' @ str_int 1 @ '': '' @
            exc_str (no_attribute (''day'' @ pad2 1) ''part_two''))], 1)"
    using t1 e1 l1 pt i1 pi po by simp
  have r2: "run_day demo_exec demo_incomplete_no_input 1 (Some 2025) =
     ([Err (cross_mark @ '' Error: Input file not found for day '' @ str_int 1)], 1)"
    using t2 e2 l2 i2 by blast
  have r3: "run_day ?exec_one demo_incomplete 1 (Some 2025) =
     ([Out (''Day '' @ pad2 1), Out (replicate 40 CHR ''-''),
       Err (cross_mark @ '' Error running day '' @ str_int 1 @ '': '' @
            exc_str (no_attribute (''day'' @ pad2 1) ''part_one''))], 1)"
    using t3 e1 l3 i1 pi po by simp
  have r4: "run_day ?exec_parse demo_incomplete 1 (Some 2025) =
     ([Err (cross_mark @ '' Error running day '' @ str_int 1 @ '': '' @
            exc_str (no_attribute (''day'' @ pad2 1) ''parse_input''))], 1)"
    using t4 e1 l4 i1 pi by simp
  from a r0 e1 l1 i1 r1 r3 r4 e2 i2 r2 show ?thesis by blast
qed

text \<open>
  C4 as stated fails: a module without \<open>part_two\<close> is loaded without complaint, its
  \<open>parse_input\<close> and \<open>part_one\<close> run, and the failure is the general one of the call.
\<close>

theorem run_day_missing_part_two_runs:
  "run_day demo_exec demo_incomplete 1 (Some 2025) =
     run_day_failed 1 [Out ''Day 01'', Out (replicate 40 CHR ''-'')]
       (AttributeError (exc_str (no_attribute ''day01'' ''part_two''))) \<and>
   run_day demo_exec demo_incomplete_no_input 1 (Some 2025) =
     ([Err (cross_mark @ '' Error: Input file not found for day 1'')], 1)"
  by (simp add: run_day_def Let_def module_path_def demo_strings path_exists_def
      demo_incomplete_def demo_incomplete_no_input_def spec_from_file_location_def endswith_def
      load_spec_def read_text_def demo_exec_def demo_module_def read_input_def get_aoc_data_dir_def
      run_solution_def run_day_failed_def no_attribute_def)

section \<open>Modules are loaded by path\<close>



section \<open>The year flag and the scaffold command\<close>

text \<open>
  C6 fails for the scaffold command: \<open>main\<close> passes the year of the command line to
  every other command, but calls \<open>scaffold_day\<close> without it, and \<open>scaffold_day\<close> reads
  the year from the configuration. With the configured year 2024, the command line
  \<open>--year 2025 scaffold 1\<close> ends with status 0 and creates the solution file of day 1
  under \<open>2024/\<close>, none under \<open>2025/\<close>; \<open>--year 2025 solve 1\<close> right after does not
  find the solution.
\<close>

theorem main_scaffold_ignores_year_flag:
  "snd (snd (main demo_env demo_exec [] \<lparr>year_flag = Some 2025, command = Scaffold 1 False\<rparr>)) = Exit 0 \<and>
   path_exists (fst (main demo_env demo_exec [] \<lparr>year_flag = Some 2025, command = Scaffold 1 False\<rparr>))
     ''2024/solutions/day01.py'' \<and>
   \<not> path_exists (fst (main demo_env demo_exec [] \<lparr>year_flag = Some 2025, command = Scaffold 1 False\<rparr>))
     ''2025/solutions/day01.py'' \<and>
   main demo_env demo_exec
     (fst (main demo_env demo_exec [] \<lparr>year_flag = Some 2025, command = Scaffold 1 False\<rparr>))
     \<lparr>year_flag = Some 2025, command = Solve 1 False\<rparr> =
     (fst (main demo_env demo_exec [] \<lparr>year_flag = Some 2025, command = Scaffold 1 False\<rparr>),
      [Err (cross_mark @ '' Error: Solution for day 1 not found'')], Exit 1)"
proof -
  let ?a = "\<lparr>year_flag = Some 2025, command = Scaffold 1 False\<rparr>"
  have "\<not> path_exists [] (solution_path 2024 1)"
    by (simp add: path_exists_def)
  then obtain fs' where run: "scaffold_day demo_env [] 1 False =
      (fs', [], Inr (solution_path 2024 1, test_path 2024 1, example_path 2024 1))"
    and rd: "\<And>p. read_text fs' p = scaffolded 2024 1 (''# day '' @ pad2 1) [] p"
    using demo_scaffold[of "[]" 1] by blast
  have m: "main demo_env demo_exec [] ?a =
      (fs', [Out (check_mark @ '' Scaffolded day '' @ pad2 1),
             Out (''  Solution: '' @ solution_path 2024 1),
             Out (''  Tests: '' @ test_path 2024 1),
             Out (''  Example: '' @ example_path 2024 1)], Exit 0)"
    by (simp add: main_def demo_env_config run)
  have e1: "path_exists fs' ''2024/solutions/day01.py''"
    unfolding path_exists_read_text rd scaffolded_def
    by (simp add: path_defs demo_strings)
  have e2: "\<not> path_exists fs' ''2025/solutions/day01.py''"
    unfolding path_exists_read_text rd scaffolded_def
    by (simp add: path_defs demo_strings read_text_def)
  have s: "main demo_env demo_exec fs' \<lparr>year_flag = Some 2025, command = Solve 1 False\<rparr> =
      (fs', [Err (cross_mark @ '' Error: Solution for day 1 not found'')], Exit 1)"
    using e2 by (simp add: main_def demo_env_config run_day_def module_path_def demo_strings)
  show ?thesis
    unfolding m using e1 e2 s by simp
qed

section \<open>The configured year and its default\<close>




end
